theory Spec2Isabelle
  imports Complex_Main
begin

section \<open>Weather dashboard: the symbol table\<close>

text \<open>
  The program is \<^verbatim>\<open>streamlit_app.py\<close>. Python text is modelled as \<^typ>\<open>string\<close>; a
  character outside ASCII is written as the bytes of its UTF-8 encoding, which is how
  the source file itself stores it. Each glyph below is named after the code points it
  stands for.
\<close>

definition glyph_question :: string where \<comment> \<open>U+2753\<close>
  "glyph_question = [CHR 0xE2, CHR 0x9D, CHR 0x93]"

definition glyph_sun :: string where \<comment> \<open>U+2600 U+FE0F\<close>
  "glyph_sun = [CHR 0xE2, CHR 0x98, CHR 0x80, CHR 0xEF, CHR 0xB8, CHR 0x8F]"

definition glyph_full_moon :: string where \<comment> \<open>U+1F315\<close>
  "glyph_full_moon = [CHR 0xF0, CHR 0x9F, CHR 0x8C, CHR 0x95]"

definition glyph_sun_small_cloud :: string where \<comment> \<open>U+1F324\<close>
  "glyph_sun_small_cloud = [CHR 0xF0, CHR 0x9F, CHR 0x8C, CHR 0xA4]"

definition glyph_sun_large_cloud :: string where \<comment> \<open>U+1F325\<close>
  "glyph_sun_large_cloud = [CHR 0xF0, CHR 0x9F, CHR 0x8C, CHR 0xA5]"

definition glyph_sun_behind_cloud :: string where \<comment> \<open>U+26C5\<close>
  "glyph_sun_behind_cloud = [CHR 0xE2, CHR 0x9B, CHR 0x85]"

definition glyph_cloud :: string where \<comment> \<open>U+2601 U+FE0F\<close>
  "glyph_cloud = [CHR 0xE2, CHR 0x98, CHR 0x81, CHR 0xEF, CHR 0xB8, CHR 0x8F]"

definition glyph_rain :: string where \<comment> \<open>U+1F327\<close>
  "glyph_rain = [CHR 0xF0, CHR 0x9F, CHR 0x8C, CHR 0xA7]"

definition glyph_snow_cloud :: string where \<comment> \<open>U+1F328\<close>
  "glyph_snow_cloud = [CHR 0xF0, CHR 0x9F, CHR 0x8C, CHR 0xA8]"

definition glyph_snowflake :: string where \<comment> \<open>U+2744 U+FE0F\<close>
  "glyph_snowflake = [CHR 0xE2, CHR 0x9D, CHR 0x84, CHR 0xEF, CHR 0xB8, CHR 0x8F]"

definition glyph_sun_rain :: string where \<comment> \<open>U+1F326\<close>
  "glyph_sun_rain = [CHR 0xF0, CHR 0x9F, CHR 0x8C, CHR 0xA6]"

definition glyph_fog :: string where \<comment> \<open>U+1F32B U+FE0F\<close>
  "glyph_fog = [CHR 0xF0, CHR 0x9F, CHR 0x8C, CHR 0xAB, CHR 0xEF, CHR 0xB8, CHR 0x8F]"

definition glyph_thunder :: string where \<comment> \<open>U+26C8\<close>
  "glyph_thunder = [CHR 0xE2, CHR 0x9B, CHR 0x88]"

definition glyph_tornado :: string where \<comment> \<open>U+1F32A U+FE0F\<close>
  "glyph_tornado = [CHR 0xF0, CHR 0x9F, CHR 0x8C, CHR 0xAA, CHR 0xEF, CHR 0xB8, CHR 0x8F]"

text \<open>
  \<^verbatim>\<open>weather_symbol_map\<close>, the dict literal of lines 11 to 45, entry by entry in the
  order of the source. Its keys are pairwise different (\<open>weather_symbol_map_distinct\<close>
  below), so the dict holds exactly these entries.
\<close>

definition weather_symbol_map :: "(int \<times> string \<times> string) list" where
  "weather_symbol_map =
    [(0, ''A weather symbol could not be determined'', glyph_question),
     (1, ''Clear sky'', glyph_sun),
     (101, ''Clear sky (night)'', glyph_full_moon),
     (2, ''Light clouds'', glyph_sun_small_cloud),
     (102, ''Light clouds (night)'', glyph_sun_large_cloud),
     (3, ''Partly cloudy'', glyph_sun_behind_cloud),
     (103, ''Partly cloudy (night)'', glyph_cloud),
     (4, ''Cloudy'', glyph_cloud),
     (104, ''Cloudy (night)'', glyph_cloud),
     (5, ''Rain'', glyph_rain),
     (105, ''Rain (night)'', glyph_rain),
     (6, ''Rain and snow / sleet'', glyph_snow_cloud),
     (106, ''Rain and snow / sleet (night)'', glyph_snow_cloud),
     (7, ''Snow'', glyph_snowflake),
     (107, ''Snow (night)'', glyph_snowflake),
     (8, ''Rain shower'', glyph_sun_rain),
     (108, ''Rain shower (night)'', glyph_sun_rain),
     (9, ''Snow shower'', glyph_snow_cloud),
     (109, ''Snow shower (night)'', glyph_snow_cloud),
     (10, ''Sleet shower'', glyph_snow_cloud),
     (110, ''Sleet shower (night)'', glyph_snow_cloud),
     (11, ''Light fog'', glyph_fog),
     (111, ''Light fog (night)'', glyph_fog),
     (12, ''Dense fog'', glyph_fog),
     (112, ''Dense fog (night)'', glyph_fog),
     (13, ''Freezing rain'', glyph_rain @ glyph_snowflake),
     (113, ''Freezing rain (night)'', glyph_rain @ glyph_snowflake),
     (14, ''Thunderstorms'', glyph_thunder),
     (114, ''Thunderstorms (night)'', glyph_thunder),
     (15, ''Drizzle'', glyph_rain),
     (115, ''Drizzle (night)'', glyph_rain),
     (16, ''Sandstorm'', glyph_tornado),
     (116, ''Sandstorm (night)'', glyph_tornado)]"

text \<open>\<^verbatim>\<open>dict.get(key, default)\<close> on a dict given by its entries.\<close>

definition dict_get :: "('k \<times> 'v) list \<Rightarrow> 'k \<Rightarrow> 'v \<Rightarrow> 'v" where
  "dict_get d k dflt = (case map_of d k of Some v \<Rightarrow> v | None \<Rightarrow> dflt)"

text \<open>Line 96: \<^verbatim>\<open>weather_symbol_map.get(symbol_id, ("Unknown symbol", "?"))\<close>.\<close>

definition get_weather_symbol_description :: "int \<Rightarrow> string \<times> string" where
  "get_weather_symbol_description symbol_id =
     dict_get weather_symbol_map symbol_id (''Unknown symbol'', glyph_question)"


section \<open>Python values and exceptions\<close>

text \<open>
  The values that \<^verbatim>\<open>response.json()\<close> can produce. A float is a rational or one of the
  three special values; every finite double is a rational, and nothing below depends
  on which rationals are doubles. A dict is the list of its entries in insertion
  order, each key once.
\<close>

datatype pyfloat = Finite rat | PosInf | NegInf | NaN

datatype pyval =
    PNone
  | PBool bool
  | PInt int
  | PFloat pyfloat
  | PStr string
  | PList "pyval list"
  | PDict "(string \<times> pyval) list"

text \<open>
  Exceptions are values: the class and the text that \<^verbatim>\<open>str(e)\<close> gives. Every class
  here derives from \<^verbatim>\<open>Exception\<close>; \<^verbatim>\<open>KeyboardInterrupt\<close> and \<^verbatim>\<open>SystemExit\<close>,
  which no statement of the program raises, are not modelled.
\<close>

datatype exn_class =
    HTTPError | RequestException | ParseError | JSONDecodeError
  | KeyError | IndexError | TypeError | ValueError | OverflowError | AttributeError
  | OtherException

datatype exn = Exn (exn_class: exn_class) (str_exn: string)

text \<open>\<^verbatim>\<open>isinstance(e, cls)\<close> for the classes named in an \<^verbatim>\<open>except\<close> clause of the program.\<close>

fun isinstance :: "exn \<Rightarrow> exn_class \<Rightarrow> bool" where
  "isinstance (Exn c m) ValueError = (c = ValueError \<or> c = JSONDecodeError)"
| "isinstance (Exn c m) RequestException = (c = RequestException \<or> c = HTTPError \<or> c = JSONDecodeError)"
| "isinstance (Exn c m) k = (c = k)"

text \<open>Sequencing of statements that may raise: the first exception ends the block.\<close>

definition try_bind :: "exn + 'a \<Rightarrow> ('a \<Rightarrow> exn + 'b) \<Rightarrow> exn + 'b" where
  "try_bind m f = (case m of Inl e \<Rightarrow> Inl e | Inr x \<Rightarrow> f x)"

subsection \<open>Printing and reading integers\<close>

function show_nat :: "nat \<Rightarrow> string" where
  "show_nat n =
     (if n < 10 then [''0123456789'' ! n]
      else show_nat (n div 10) @ [''0123456789'' ! (n mod 10)])"
  by pat_completeness auto
termination
  by (relation "measure id") auto

declare show_nat.simps [simp del]

definition show_int :: "int \<Rightarrow> string" where
  "show_int i = (if i < 0 then CHR ''-'' # show_nat (nat (- i)) else show_nat (nat i))"

definition quoted :: "string \<Rightarrow> string" where
  "quoted s = CHR 0x27 # s @ [CHR 0x27]"

text \<open>
  \<^verbatim>\<open>int(s)\<close> for a str: blanks are stripped at both ends, then an optional sign, then
  decimal digits, where single underscores may stand between digits. Blanks and digits
  outside ASCII, and the interpreter's limit on the number of digits, are not modelled.
\<close>

definition is_space :: "char \<Rightarrow> bool" where
  "is_space c = (c \<in> set [CHR 0x09, CHR 0x0A, CHR 0x0B, CHR 0x0C, CHR 0x0D,
                          CHR 0x1C, CHR 0x1D, CHR 0x1E, CHR 0x1F, CHR 0x20])"

definition strip :: "string \<Rightarrow> string" where
  "strip s = rev (dropWhile is_space (rev (dropWhile is_space s)))"

definition digit_of :: "char \<Rightarrow> nat option" where
  "digit_of c = (let n = (of_char c :: nat) in if 48 \<le> n \<and> n \<le> 57 then Some (n - 48) else None)"

fun parse_digits :: "nat \<Rightarrow> string \<Rightarrow> nat option" where
  "parse_digits acc [] = Some acc"
| "parse_digits acc [c] = (case digit_of c of None \<Rightarrow> None | Some d \<Rightarrow> Some (10 * acc + d))"
| "parse_digits acc (c # c' # cs) =
     (if c = CHR 0x5F
      then (case digit_of c' of None \<Rightarrow> None | Some d \<Rightarrow> parse_digits (10 * acc + d) cs)
      else (case digit_of c of None \<Rightarrow> None | Some d \<Rightarrow> parse_digits (10 * acc + d) (c' # cs)))"

fun split_sign :: "string \<Rightarrow> bool \<times> string" where
  "split_sign [] = (False, [])"
| "split_sign (c # cs) =
     (if c = CHR ''-'' then (True, cs) else if c = CHR ''+'' then (False, cs) else (False, c # cs))"

definition int_of_str :: "string \<Rightarrow> int option" where
  "int_of_str s =
     (case split_sign (strip s) of
        (neg, []) \<Rightarrow> None
      | (neg, c # cs) \<Rightarrow>
          (case digit_of c of
             None \<Rightarrow> None
           | Some d \<Rightarrow>
               (case parse_digits d cs of
                  None \<Rightarrow> None
                | Some n \<Rightarrow> Some (if neg then - int n else int n))))"

definition type_name :: "pyval \<Rightarrow> string" where
  "type_name v =
     (case v of PNone \<Rightarrow> ''NoneType'' | PBool _ \<Rightarrow> ''bool'' | PInt _ \<Rightarrow> ''int''
      | PFloat _ \<Rightarrow> ''float'' | PStr _ \<Rightarrow> ''str'' | PList _ \<Rightarrow> ''list'' | PDict _ \<Rightarrow> ''dict'')"

text \<open>The built-in \<^verbatim>\<open>int(v)\<close>: a float is cut towards zero.\<close>

fun py_int :: "pyval \<Rightarrow> exn + int" where
  "py_int (PInt n) = Inr n"
| "py_int (PBool b) = Inr (if b then 1 else 0)"
| "py_int (PFloat (Finite q)) = Inr (if 0 \<le> q then \<lfloor>q\<rfloor> else \<lceil>q\<rceil>)"
| "py_int (PFloat NaN) = Inl (Exn ValueError ''cannot convert float NaN to integer'')"
| "py_int (PFloat _) = Inl (Exn OverflowError ''cannot convert float infinity to integer'')"
| "py_int (PStr s) =
     (case int_of_str s of
        Some n \<Rightarrow> Inr n
      | None \<Rightarrow> Inl (Exn ValueError (''invalid literal for int() with base 10: '' @ quoted s)))"
| "py_int v =
     Inl (Exn TypeError
       (''int() argument must be a string, a bytes-like object or a real number, not ''
        @ quoted (type_name v)))"

subsection \<open>Subscription, iteration, equality\<close>

text \<open>
  \<^verbatim>\<open>obj[k]\<close>. The program subscripts with str literals and with ints only. The keys
  of a dict that came from JSON are strs, so an int is never among them. A negative
  list index counts from the end. Indexing a str gives a character of the model, which
  is the character of the Python str when the str is ASCII. The text of a
  \<^verbatim>\<open>TypeError\<close> varies with the interpreter's version; no statement below depends
  on it.
\<close>

datatype key = Key string | Idx int

fun getitem :: "pyval \<Rightarrow> key \<Rightarrow> exn + pyval" where
  "getitem (PDict d) (Key k) =
     (case map_of d k of Some v \<Rightarrow> Inr v | None \<Rightarrow> Inl (Exn KeyError (quoted k)))"
| "getitem (PDict d) (Idx i) = Inl (Exn KeyError (show_int i))"
| "getitem (PList xs) (Idx i) =
     (let n = int (length xs); j = (if i < 0 then i + n else i)
      in if 0 \<le> j \<and> j < n then Inr (xs ! nat j)
         else Inl (Exn IndexError ''list index out of range''))"
| "getitem (PList xs) (Key k) =
     Inl (Exn TypeError ''list indices must be integers or slices, not str'')"
| "getitem (PStr s) (Idx i) =
     (let n = int (length s); j = (if i < 0 then i + n else i)
      in if 0 \<le> j \<and> j < n then Inr (PStr [s ! nat j])
         else Inl (Exn IndexError ''string index out of range''))"
| "getitem (PStr s) (Key k) = Inl (Exn TypeError ''string indices must be integers'')"
| "getitem v k = Inl (Exn TypeError (quoted (type_name v) @ '' object is not subscriptable''))"

text \<open>A chain of subscriptions \<^verbatim>\<open>obj[k1][k2]...\<close>, evaluated left to right.\<close>

fun getpath :: "pyval \<Rightarrow> key list \<Rightarrow> exn + pyval" where
  "getpath v [] = Inr v"
| "getpath v (k # ks) = try_bind (getitem v k) (\<lambda>w. getpath w ks)"

text \<open>The objects that \<^verbatim>\<open>for x in obj\<close> visits.\<close>

fun py_iter :: "pyval \<Rightarrow> exn + pyval list" where
  "py_iter (PList xs) = Inr xs"
| "py_iter (PStr s) = Inr (map (\<lambda>c. PStr [c]) s)"
| "py_iter (PDict d) = Inr (map (\<lambda>(k, v). PStr k) d)"
| "py_iter v = Inl (Exn TypeError (quoted (type_name v) @ '' object is not iterable''))"

text \<open>
  Python's \<^verbatim>\<open>==\<close>: numbers are compared by value across bool, int and float, NaN
  equals nothing, lists are compared element by element and dicts entry by entry
  whatever the order of their keys.
\<close>

fun num_of :: "pyval \<Rightarrow> pyfloat option" where
  "num_of (PBool b) = Some (Finite (if b then 1 else 0))"
| "num_of (PInt n) = Some (Finite (of_int n))"
| "num_of (PFloat f) = Some f"
| "num_of _ = None"

definition float_eq :: "pyfloat \<Rightarrow> pyfloat \<Rightarrow> bool" where
  "float_eq a b = (a \<noteq> NaN \<and> a = b)"

fun py_eq :: "pyval \<Rightarrow> pyval \<Rightarrow> bool" where
  "py_eq PNone PNone = True"
| "py_eq (PStr a) (PStr b) = (a = b)"
| "py_eq (PList xs) (PList ys) = list_all2 py_eq xs ys"
| "py_eq (PDict d) (PDict e) =
     (length d = length e \<and>
      (\<forall>(k, v) \<in> set d. case map_of e k of None \<Rightarrow> False | Some w \<Rightarrow> py_eq v w))"
| "py_eq a b = (case (num_of a, num_of b) of (Some x, Some y) \<Rightarrow> float_eq x y | _ \<Rightarrow> False)"

text \<open>
  \<^verbatim>\<open>xs.index(x)\<close> where \<open>x\<close> is the object at position \<open>i\<close> of \<open>xs\<close>: the first
  position whose object is \<open>x\<close> itself or equals it. The objects of a parsed JSON
  list are all different objects, so "is \<open>x\<close> itself" means "is at position \<open>i\<close>".
\<close>

fun first_index :: "(nat \<Rightarrow> 'a \<Rightarrow> bool) \<Rightarrow> nat \<Rightarrow> 'a list \<Rightarrow> nat option" where
  "first_index P j [] = None"
| "first_index P j (x # xs) = (if P j x then Some j else first_index P (Suc j) xs)"

fun str_find :: "string \<Rightarrow> string \<Rightarrow> nat \<Rightarrow> nat option" where
  "str_find [] t j = (if t = [] then Some j else None)"
| "str_find (c # s) t j =
     (if take (length t) (c # s) = t then Some j else str_find s t (Suc j))"

fun index_method :: "pyval \<Rightarrow> nat \<Rightarrow> pyval \<Rightarrow> exn + nat" where
  "index_method (PList xs) i x =
     (case first_index (\<lambda>j y. j = i \<or> py_eq y x) 0 xs of
        Some j \<Rightarrow> Inr j
      | None \<Rightarrow> Inl (Exn ValueError ''list.index(x): x not in list''))"
| "index_method (PStr s) i (PStr t) =
     (case str_find s t 0 of
        Some j \<Rightarrow> Inr j
      | None \<Rightarrow> Inl (Exn ValueError ''substring not found''))"
| "index_method (PStr s) i x =
     Inl (Exn TypeError (''must be str, not '' @ type_name x))"
| "index_method v i x =
     Inl (Exn AttributeError (quoted (type_name v) @ '' object has no attribute '' @ quoted ''index''))"

text \<open>\<^verbatim>\<open>d[k] = v\<close> on a dict: an existing key keeps its place, a new one goes last.\<close>

fun dict_set :: "('k \<times> 'v) list \<Rightarrow> 'k \<Rightarrow> 'v \<Rightarrow> ('k \<times> 'v) list" where
  "dict_set [] k v = [(k, v)]"
| "dict_set ((k', v') # d) k v = (if k' = k then (k, v) # d else (k', v') # dict_set d k v)"

section \<open>XML documents\<close>

text \<open>
  An \<^verbatim>\<open>xml.etree.ElementTree.Element\<close>: its tag, its \<^verbatim>\<open>text\<close> attribute (the text
  before the first child, \<^verbatim>\<open>None\<close> when there is none) and its children. The
  attributes and the tail are never read by the program.
\<close>

datatype element = Element (el_tag: string) (el_text: "string option") (el_children: "element list")

text \<open>\<^verbatim>\<open>Element.iter()\<close>: the element, then its descendants, in document order.\<close>

fun iter_el :: "element \<Rightarrow> element list" where
  "iter_el (Element t x cs) = Element t x cs # concat (map iter_el cs)"

text \<open>\<^verbatim>\<open>root.findall(".//tag")\<close>: every descendant of the root with that tag, in document order.\<close>

definition findall_descendants :: "string \<Rightarrow> element \<Rightarrow> element list" where
  "findall_descendants tg doc =
     filter (\<lambda>e. el_tag e = tg) (concat (map iter_el (el_children doc)))"

text \<open>\<^verbatim>\<open>elem.find("tag")\<close>: the first child with that tag, or \<^verbatim>\<open>None\<close>.\<close>

definition find_child :: "string \<Rightarrow> element \<Rightarrow> element option" where
  "find_child tg e = List.find (\<lambda>c. el_tag c = tg) (el_children e)"

subsection \<open>Document order\<close>

text \<open>
  Names for stating where a description stands in a document. \<open>item_descriptions\<close>
  lists, in document order, every \<^verbatim>\<open>description\<close> element that is the child of an
  \<^verbatim>\<open>item\<close> element below the top element. \<open>flat_items\<close> says that no item lies inside
  another item, as in a syndication feed, where the items are the entries of a channel.
\<close>

fun item_descriptions_of :: "bool \<Rightarrow> element \<Rightarrow> element list" where
  "item_descriptions_of in_item (Element t x cs) =
     (if in_item \<and> t = ''description'' then [Element t x cs] else [])
     @ concat (map (item_descriptions_of (t = ''item'')) cs)"

definition item_descriptions :: "element \<Rightarrow> element list" where
  "item_descriptions doc = concat (map (item_descriptions_of False) (el_children doc))"

definition flat_items :: "element \<Rightarrow> bool" where
  "flat_items doc =
     (\<forall>item \<in> set (findall_descendants ''item'' doc). findall_descendants ''item'' item = [])"

definition description_children :: "element \<Rightarrow> element list" where
  "description_children item = filter (\<lambda>c. el_tag c = ''description'') (el_children item)"

definition items_in :: "element \<Rightarrow> element list" where
  "items_in e = filter (\<lambda>x. el_tag x = ''item'') (iter_el e)"

section \<open>The outside world\<close>

text \<open>
  What the program reads from outside is a parameter of the model. A
  \<^verbatim>\<open>requests.Response\<close> is the status line, the URL it answers and the body. The
  environment \<open>env\<close> holds the two secrets read at line 7 and 8 and the library calls
  whose results the program cannot compute itself: the outcome of the \<open>n\<close>-th
  \<^verbatim>\<open>requests.get\<close> of the process, \<^verbatim>\<open>ET.fromstring\<close>, \<^verbatim>\<open>response.json()\<close>, the
  \<open>n\<close>-th reading of \<^verbatim>\<open>datetime.utcnow()\<close> (in microseconds) and
  \<^verbatim>\<open>datetime.isoformat\<close>. The state \<open>io\<close> counts the clock readings and the
  requests made so far; it is all that a call leaves behind. The year 9999, where
  adding a \<^verbatim>\<open>timedelta\<close> overflows, is not modelled.
\<close>

record response =
  status_code :: int
  reason :: string
  resp_url :: string
  content :: string

record env =
  username :: string
  password :: string
  requests_get :: "nat \<Rightarrow> string \<Rightarrow> (string \<times> string) option \<Rightarrow> exn + response"
  fromstring :: "string \<Rightarrow> exn + element"
  json :: "response \<Rightarrow> exn + pyval"
  utcnow :: "nat \<Rightarrow> nat"
  isoformat :: "nat \<Rightarrow> string"

record io =
  clock_reads :: nat
  http_calls :: nat

definition datetime_utcnow :: "env \<Rightarrow> io \<Rightarrow> nat \<times> io" where
  "datetime_utcnow env s = (utcnow env (clock_reads s), s\<lparr>clock_reads := Suc (clock_reads s)\<rparr>)"

definition http_get ::
  "env \<Rightarrow> string \<Rightarrow> (string \<times> string) option \<Rightarrow> io \<Rightarrow> (exn + response) \<times> io" where
  "http_get env u auth s =
     (requests_get env (http_calls s) u auth, s\<lparr>http_calls := Suc (http_calls s)\<rparr>)"

definition timedelta_days :: "nat \<Rightarrow> nat" where
  "timedelta_days d = d * 86400000000"

text \<open>
  \<^verbatim>\<open>Response.raise_for_status\<close> of the requests library: a status from 400 to 599
  raises \<^verbatim>\<open>HTTPError\<close>, any other status returns.
\<close>

definition raise_for_status :: "response \<Rightarrow> exn + unit" where
  "raise_for_status r =
     (if 400 \<le> status_code r \<and> status_code r < 500
      then Inl (Exn HTTPError (show_int (status_code r) @ '' Client Error: '' @ reason r
                               @ '' for url: '' @ resp_url r))
      else if 500 \<le> status_code r \<and> status_code r < 600
      then Inl (Exn HTTPError (show_int (status_code r) @ '' Server Error: '' @ reason r
                               @ '' for url: '' @ resp_url r))
      else Inr ())"

section \<open>The program\<close>

definition LATITUDE :: string where
  "LATITUDE = ''33.4473''"

definition LONGITUDE :: string where
  "LONGITUDE = ''-84.1469''"

definition RSS_FEED_NHC :: string where
  "RSS_FEED_NHC = ''https://www.nhc.noaa.gov/nhc_at1.xml''"

definition RSS_FEED_SPC :: string where
  "RSS_FEED_SPC = ''https://www.spc.noaa.gov/products/spcwwrss.xml''"

subsection \<open>\<^verbatim>\<open>fetch_first_description_from_rss\<close>, lines 56 to 68\<close>

definition text_value :: "string option \<Rightarrow> pyval" where
  "text_value t = (case t of None \<Rightarrow> PNone | Some s \<Rightarrow> PStr s)"

text \<open>The loop of lines 62 to 66 over the items found.\<close>

fun first_description :: "element list \<Rightarrow> pyval" where
  "first_description [] = PStr ''No description available.''"
| "first_description (item # items) =
     (case find_child ''description'' item of
        Some description \<Rightarrow> text_value (el_text description)
      | None \<Rightarrow> first_description items)"

text \<open>The body of the \<^verbatim>\<open>try\<close>, lines 58 to 66.\<close>

definition rss_try :: "env \<Rightarrow> string \<Rightarrow> io \<Rightarrow> (exn + pyval) \<times> io" where
  "rss_try env u s =
     (case http_get env u None s of
        (r, s1) \<Rightarrow>
          (try_bind r (\<lambda>response.
           try_bind (fromstring env (content response)) (\<lambda>doc.
           Inr (first_description (findall_descendants ''item'' doc)))), s1))"

definition fetch_first_description_from_rss :: "env \<Rightarrow> string \<Rightarrow> io \<Rightarrow> pyval \<times> io" where
  "fetch_first_description_from_rss env u s =
     (case rss_try env u s of
        (Inr v, s1) \<Rightarrow> (v, s1)
      | (Inl e, s1) \<Rightarrow> (PStr (''Error fetching data: '' @ str_exn e), s1))"

subsection \<open>\<^verbatim>\<open>fetch_weather_data\<close>, lines 71 to 92\<close>

definition current_params :: "string \<Rightarrow> string \<Rightarrow> (string \<times> string) list" where
  "current_params latitude longitude =
     [(''temperature'', ''t_2m:F/'' @ latitude @ '','' @ longitude),
      (''weather_symbol'', ''weather_symbol_1h:idx/'' @ latitude @ '','' @ longitude),
      (''heavy_rain_warning'', ''precip_1h:mm/'' @ latitude @ '','' @ longitude),
      (''air_quality'', ''pm2p5:ugm3/'' @ latitude @ '','' @ longitude)]"

definition current_url :: "env \<Rightarrow> nat \<Rightarrow> string \<Rightarrow> string" where
  "current_url env now endpoint =
     ''https://api.meteomatics.com/'' @ isoformat env now @ ''Z/'' @ endpoint @ ''/json''"

text \<open>What lines 84 to 86 make of a response.\<close>

definition current_value :: "env \<Rightarrow> response \<Rightarrow> exn + pyval" where
  "current_value env response =
     try_bind (raise_for_status response) (\<lambda>_.
     try_bind (json env response) (\<lambda>data.
     getpath data [Key ''data'', Idx 0, Key ''coordinates'', Idx 0, Key ''dates'', Idx 0,
                   Key ''value'']))"

text \<open>The body of the \<^verbatim>\<open>try\<close>, lines 82 to 86.\<close>

definition current_try :: "env \<Rightarrow> string \<Rightarrow> io \<Rightarrow> (exn + pyval) \<times> io" where
  "current_try env endpoint s =
     (case datetime_utcnow env s of
        (now, s1) \<Rightarrow>
          (case http_get env (current_url env now endpoint)
                  (Some (username env, password env)) s1 of
             (r, s2) \<Rightarrow> (try_bind r (current_value env), s2)))"

fun weather_loop ::
  "env \<Rightarrow> (string \<times> string) list \<Rightarrow> (string \<times> pyval) list \<Rightarrow> io
     \<Rightarrow> (string \<times> pyval) list \<times> io" where
  "weather_loop env [] weather_data s = (weather_data, s)"
| "weather_loop env ((param, endpoint) # rest) weather_data s =
     (case current_try env endpoint s of
        (Inr v, s1) \<Rightarrow> weather_loop env rest (dict_set weather_data param v) s1
      | (Inl e, s1) \<Rightarrow>
          (if isinstance e HTTPError
           then weather_loop env rest
                  (dict_set weather_data param
                     (PStr (''Error fetching '' @ param @ '': '' @ str_exn e))) s1
           else weather_loop env rest
                  (dict_set weather_data param
                     (PStr (''Error fetching '' @ param @ '': '' @ str_exn e))) s1))"

definition fetch_weather_data ::
  "env \<Rightarrow> string \<Rightarrow> string \<Rightarrow> io \<Rightarrow> (string \<times> pyval) list \<times> io" where
  "fetch_weather_data env latitude longitude s =
     weather_loop env (current_params latitude longitude) [] s"

subsection \<open>\<^verbatim>\<open>fetch_5_day_forecast\<close>, lines 99 to 124\<close>

definition interval :: string where
  "interval = ''PT24H''"

definition forecast_params :: "string \<Rightarrow> string \<Rightarrow> (string \<times> string) list" where
  "forecast_params latitude longitude =
     [(''temperature'', ''t_2m:F/'' @ latitude @ '','' @ longitude),
      (''weather_symbol'', ''weather_symbol_1h:idx/'' @ latitude @ '','' @ longitude)]"

definition forecast_url :: "env \<Rightarrow> nat \<Rightarrow> nat \<Rightarrow> string \<Rightarrow> string" where
  "forecast_url env start_date end_date endpoint =
     ''https://api.meteomatics.com/'' @ isoformat env start_date @ ''Z--''
     @ isoformat env end_date @ ''Z:'' @ interval @ ''/'' @ endpoint @ ''/json''"

text \<open>What lines 116 to 118 make of a response.\<close>

definition forecast_dates :: "env \<Rightarrow> response \<Rightarrow> exn + pyval" where
  "forecast_dates env response =
     try_bind (raise_for_status response) (\<lambda>_.
     try_bind (json env response) (\<lambda>data.
     getpath data [Key ''data'', Idx 0, Key ''coordinates'', Idx 0, Key ''dates'']))"

definition forecast_try :: "env \<Rightarrow> nat \<Rightarrow> nat \<Rightarrow> string \<Rightarrow> io \<Rightarrow> (exn + pyval) \<times> io" where
  "forecast_try env start_date end_date endpoint s =
     (case http_get env (forecast_url env start_date end_date endpoint)
             (Some (username env, password env)) s of
        (r, s1) \<Rightarrow> (try_bind r (forecast_dates env), s1))"

fun forecast_loop ::
  "env \<Rightarrow> nat \<Rightarrow> nat \<Rightarrow> (string \<times> string) list \<Rightarrow> pyval list \<Rightarrow> io \<Rightarrow> pyval \<times> io" where
  "forecast_loop env start_date end_date [] forecast_data s = (PList forecast_data, s)"
| "forecast_loop env start_date end_date ((param, endpoint) # rest) forecast_data s =
     (case forecast_try env start_date end_date endpoint s of
        (Inr dates, s1) \<Rightarrow>
          forecast_loop env start_date end_date rest (forecast_data @ [dates]) s1
      | (Inl e, s1) \<Rightarrow>
          (if isinstance e HTTPError
           then (PStr (''Error fetching '' @ param @ '': '' @ str_exn e), s1)
           else (PStr (''Error fetching '' @ param @ '': '' @ str_exn e), s1)))"

definition fetch_5_day_forecast :: "env \<Rightarrow> string \<Rightarrow> string \<Rightarrow> io \<Rightarrow> pyval \<times> io" where
  "fetch_5_day_forecast env latitude longitude s =
     (case datetime_utcnow env s of
        (start_date, s1) \<Rightarrow>
          forecast_loop env start_date (start_date + timedelta_days 5)
            (forecast_params latitude longitude) [] s1)"

subsection \<open>\<^verbatim>\<open>display_5_day_forecast\<close>, lines 127 to 144\<close>

text \<open>
  What one round of the loop writes: the date and the temperature as they came, and
  the description and the icon of the day's symbol. How \<^verbatim>\<open>st.write\<close> lays them
  out belongs to the toolkit. A round that raises writes nothing of its day, and the
  exception leaves the function after the days already written.
\<close>

datatype forecast_day = ForecastDay pyval pyval string string

text \<open>Lines 135 to 138 for the object \<open>day\<close> at position \<open>i\<close> of \<^verbatim>\<open>forecast_data[0]\<close>.\<close>

definition forecast_day_of :: "pyval \<Rightarrow> nat \<Rightarrow> pyval \<Rightarrow> exn + forecast_day" where
  "forecast_day_of forecast_data i day =
     try_bind (getitem day (Key ''date'')) (\<lambda>date.
     try_bind (getitem day (Key ''value'')) (\<lambda>temperature.
     try_bind (getitem forecast_data (Idx 1)) (\<lambda>symbols.
     try_bind (getitem forecast_data (Idx 0)) (\<lambda>temperatures.
     try_bind (index_method temperatures i day) (\<lambda>idx.
     try_bind (getitem symbols (Idx (int idx))) (\<lambda>entry.
     try_bind (getitem entry (Key ''value'')) (\<lambda>v.
     try_bind (py_int v) (\<lambda>symbol_id.
       (case get_weather_symbol_description symbol_id of
          (symbol_description, symbol_icon) \<Rightarrow>
            Inr (ForecastDay date temperature symbol_description symbol_icon))))))))))"

fun display_loop :: "pyval \<Rightarrow> nat \<Rightarrow> pyval list \<Rightarrow> forecast_day list \<times> exn option" where
  "display_loop forecast_data i [] = ([], None)"
| "display_loop forecast_data i (day # days) =
     (case forecast_day_of forecast_data i day of
        Inl e \<Rightarrow> ([], Some e)
      | Inr d \<Rightarrow>
          (case display_loop forecast_data (Suc i) days of
             (ds, r) \<Rightarrow> (d # ds, r)))"

text \<open>Lines 134 to 144 on the value that \<^verbatim>\<open>fetch_5_day_forecast\<close> returned.\<close>

definition display_forecast :: "pyval \<Rightarrow> forecast_day list \<times> exn option" where
  "display_forecast forecast_data =
     (case getitem forecast_data (Idx 0) of
        Inl e \<Rightarrow> ([], Some e)
      | Inr temperatures \<Rightarrow>
          (case py_iter temperatures of
             Inl e \<Rightarrow> ([], Some e)
           | Inr days \<Rightarrow> display_loop forecast_data 0 days))"

definition display_5_day_forecast :: "env \<Rightarrow> io \<Rightarrow> (forecast_day list \<times> exn option) \<times> io" where
  "display_5_day_forecast env s =
     (case fetch_5_day_forecast env LATITUDE LONGITUDE s of
        (forecast_data, s1) \<Rightarrow> (display_forecast forecast_data, s1))"

subsection \<open>The conversion in \<^verbatim>\<open>main\<close>, lines 179 to 182\<close>

definition main_weather_symbol_id :: "(string \<times> pyval) list \<Rightarrow> exn + int" where
  "main_weather_symbol_id weather_data =
     (case py_int (dict_get weather_data ''weather_symbol'' (PInt 0)) of
        Inr n \<Rightarrow> Inr n
      | Inl e \<Rightarrow> if isinstance e TypeError \<or> isinstance e ValueError then Inr 0 else Inl e)"

section \<open>What the upstream answers\<close>

text \<open>
  Names for what the outside gives to one call. \<open>current_request\<close> is the outcome of
  the request that \<^verbatim>\<open>fetch_weather_data\<close>, started in state \<open>s\<close>, makes for its
  \<open>k\<close>-th parameter: it is the \<open>k\<close>-th request after \<open>s\<close>, for the URL built from the
  \<open>k\<close>-th clock reading after \<open>s\<close>. \<open>current_outcome\<close> is what lines 84 to 86 make of
  it. \<open>forecast_request\<close> and \<open>forecast_outcome\<close> are the same for
  \<^verbatim>\<open>fetch_5_day_forecast\<close>, which reads the clock once.
\<close>

definition current_request :: "env \<Rightarrow> string \<Rightarrow> string \<Rightarrow> io \<Rightarrow> nat \<Rightarrow> exn + response" where
  "current_request env latitude longitude s k =
     requests_get env (http_calls s + k)
       (current_url env (utcnow env (clock_reads s + k))
          (snd (current_params latitude longitude ! k)))
       (Some (username env, password env))"

definition current_outcome :: "env \<Rightarrow> string \<Rightarrow> string \<Rightarrow> io \<Rightarrow> nat \<Rightarrow> exn + pyval" where
  "current_outcome env latitude longitude s k =
     try_bind (current_request env latitude longitude s k) (current_value env)"

definition forecast_request :: "env \<Rightarrow> string \<Rightarrow> string \<Rightarrow> io \<Rightarrow> nat \<Rightarrow> exn + response" where
  "forecast_request env latitude longitude s k =
     requests_get env (http_calls s + k)
       (forecast_url env (utcnow env (clock_reads s))
          (utcnow env (clock_reads s) + timedelta_days 5)
          (snd (forecast_params latitude longitude ! k)))
       (Some (username env, password env))"

definition forecast_outcome :: "env \<Rightarrow> string \<Rightarrow> string \<Rightarrow> io \<Rightarrow> nat \<Rightarrow> exn + pyval" where
  "forecast_outcome env latitude longitude s k =
     try_bind (forecast_request env latitude longitude s k) (forecast_dates env)"

text \<open>The URLs of these requests.\<close>

definition current_url_of :: "env \<Rightarrow> string \<Rightarrow> string \<Rightarrow> io \<Rightarrow> nat \<Rightarrow> string" where
  "current_url_of env latitude longitude s k =
     current_url env (utcnow env (clock_reads s + k)) (snd (current_params latitude longitude ! k))"

definition forecast_url_of :: "env \<Rightarrow> string \<Rightarrow> string \<Rightarrow> io \<Rightarrow> nat \<Rightarrow> string" where
  "forecast_url_of env latitude longitude s k =
     forecast_url env (utcnow env (clock_reads s))
       (utcnow env (clock_reads s) + timedelta_days 5)
       (snd (forecast_params latitude longitude ! k))"




text \<open>The text that an \<^verbatim>\<open>except\<close> clause of the two weather functions builds.\<close>

definition error_text :: "string \<Rightarrow> exn \<Rightarrow> pyval" where
  "error_text param e = PStr (''Error fetching '' @ param @ '': '' @ str_exn e)"

text \<open>The entry that \<^verbatim>\<open>fetch_weather_data\<close> stores for a parameter whose \<^verbatim>\<open>try\<close> gave \<open>r\<close>.\<close>

definition entry_of :: "string \<Rightarrow> exn + pyval \<Rightarrow> pyval" where
  "entry_of param r = (case r of Inr v \<Rightarrow> v | Inl e \<Rightarrow> error_text param e)"

section \<open>Mocked upstreams\<close>

text \<open>
  Concrete environments on which the statements below are run. The two parsers know
  a few bodies by name; any other body is malformed.
\<close>

definition sample :: "string \<Rightarrow> pyval \<Rightarrow> pyval" where
  "sample d v = PDict [(''date'', PStr d), (''value'', v)]"

definition envelope :: "pyval list \<Rightarrow> pyval" where
  "envelope dates =
     PDict [(''version'', PStr ''3.0''),
            (''data'', PList [PDict [(''parameter'', PStr ''p''),
               (''coordinates'', PList [PDict [(''dates'', PList dates)]])]])]"

definition mock_json :: "response \<Rightarrow> exn + pyval" where
  "mock_json r =
     (if content r = ''now-temperature''
        then Inr (envelope [sample ''2024-09-30T12:00:00Z'' (PFloat (Finite (145 / 2)))])
      else if content r = ''now-symbol''
        then Inr (envelope [sample ''2024-09-30T12:00:00Z'' (PInt 5)])
      else if content r = ''temperatures''
        then Inr (envelope [sample ''d1'' (PInt 70), sample ''d2'' (PInt 75)])
      else if content r = ''symbols''
        then Inr (envelope [sample ''d1'' (PStr ''1''), sample ''d2'' (PStr ''5'')])
      else if content r = ''empty-envelope''
        then Inr (PDict [(''data'', PList [])])
      else Inl (Exn JSONDecodeError ''Expecting value: line 1 column 1 (char 0)''))"

definition two_item_feed :: element where
  "two_item_feed =
     Element ''rss'' None
       [Element ''channel'' None
          [Element ''title'' (Some ''Advisories'') [],
           Element ''item'' None [Element ''title'' (Some ''First'') []],
           Element ''item'' None
             [Element ''title'' (Some ''Second'') [],
              Element ''description'' (Some ''Tropical storm forming'') []]]]"

definition empty_description_feed :: element where
  "empty_description_feed =
     Element ''rss'' None
       [Element ''channel'' None
          [Element ''item'' None [Element ''title'' (Some ''First'') []],
           Element ''item'' None [Element ''description'' None []],
           Element ''item'' None [Element ''description'' (Some ''Later text'') []]]]"

text \<open>No feed: an item inside an item, whose description comes first in the document.\<close>

definition nested_item_document :: element where
  "nested_item_document =
     Element ''rss'' None
       [Element ''item'' None
          [Element ''item'' None [Element ''description'' (Some ''inner'') []],
           Element ''description'' (Some ''outer'') []]]"

definition mock_fromstring :: "string \<Rightarrow> exn + element" where
  "mock_fromstring body =
     (if body = ''two-item-feed'' then Inr two_item_feed
      else if body = ''empty-description-feed'' then Inr empty_description_feed
      else if body = ''no-item-feed'' then Inr (Element ''rss'' None [Element ''channel'' None []])
      else Inl (Exn ParseError ''syntax error: line 1, column 0''))"

text \<open>
  The answers. The requests library reports in \<^verbatim>\<open>Response.url\<close> the URL that was
  requested, so every mocked answer carries the URL of its request.
\<close>

definition ok_response :: "string \<Rightarrow> string \<Rightarrow> response" where
  "ok_response u body = \<lparr>status_code = 200, reason = ''OK'', resp_url = u, content = body\<rparr>"

definition server_error_response :: "string \<Rightarrow> response" where
  "server_error_response u =
     \<lparr>status_code = 500, reason = ''Internal Server Error'', resp_url = u, content = []\<rparr>"

text \<open>
  The clock advances by one second with every reading. The first reading prints
  differently from the later ones, so that the URLs of two calls in a row differ.
\<close>

definition mock_env ::
  "(nat \<Rightarrow> string \<Rightarrow> (string \<times> string) option \<Rightarrow> exn + response) \<Rightarrow> env" where
  "mock_env get =
     \<lparr>username = ''user'', password = ''secret'', requests_get = get,
      fromstring = mock_fromstring, json = mock_json,
      utcnow = (\<lambda>n. 1000000 * n),
      isoformat = (\<lambda>t. if t = 0 then ''2024-09-30T12:00:00''
                        else if t = 432000000000 then ''2024-10-05T12:00:00''
                        else if t = 432001000000 then ''2024-10-05T12:00:01''
                        else ''2024-09-30T12:00:01'')\<rparr>"

text \<open>
  The feeds: one URL answers with two items, one with a body that is no XML, one with an
  empty description, one with no item; any other URL is not answered at all.
\<close>

definition feed_upstream :: "nat \<Rightarrow> string \<Rightarrow> (string \<times> string) option \<Rightarrow> exn + response" where
  "feed_upstream n u auth =
     (if u = RSS_FEED_NHC then Inr (ok_response u ''two-item-feed'')
      else if u = RSS_FEED_SPC then Inr (ok_response u ''this is not XML'')
      else if u = ''empty'' then Inr (ok_response u ''empty-description-feed'')
      else if u = ''no-items'' then Inr (ok_response u ''no-item-feed'')
      else Inl (Exn RequestException ''Connection refused''))"

text \<open>
  The current weather: of every four requests in a row the first is answered with the
  temperature 72.5, the second with status 500, the third with a body that is no JSON,
  and the fourth not at all.
\<close>

definition current_upstream :: "nat \<Rightarrow> string \<Rightarrow> (string \<times> string) option \<Rightarrow> exn + response" where
  "current_upstream n u auth =
     (if n mod 4 = 0 then Inr (ok_response u ''now-temperature'')
      else if n mod 4 = 1 then Inr (server_error_response u)
      else if n mod 4 = 2 then Inr (ok_response u ''not JSON'')
      else Inl (Exn RequestException ''Connection refused''))"

text \<open>The forecast: both series arrive; or the temperature fails and the symbols would arrive.\<close>

definition forecast_upstream :: "nat \<Rightarrow> string \<Rightarrow> (string \<times> string) option \<Rightarrow> exn + response" where
  "forecast_upstream n u auth =
     (if n mod 2 = 0 then Inr (ok_response u ''temperatures'') else Inr (ok_response u ''symbols''))"

definition failing_forecast_upstream ::
  "nat \<Rightarrow> string \<Rightarrow> (string \<times> string) option \<Rightarrow> exn + response" where
  "failing_forecast_upstream n u auth =
     (if n mod 2 = 0 then Inr (server_error_response u) else Inr (ok_response u ''symbols''))"


definition symbol_failing_upstream ::
  "nat \<Rightarrow> string \<Rightarrow> (string \<times> string) option \<Rightarrow> exn + response" where
  "symbol_failing_upstream n u auth =
     (if n mod 2 = 0 then Inr (ok_response u ''temperatures'') else Inr (ok_response u ''not JSON''))"

definition shapeless_upstream ::
  "nat \<Rightarrow> string \<Rightarrow> (string \<times> string) option \<Rightarrow> exn + response" where
  "shapeless_upstream n u auth = Inr (ok_response u ''empty-envelope'')"

definition offline_upstream ::
  "nat \<Rightarrow> string \<Rightarrow> (string \<times> string) option \<Rightarrow> exn + response" where
  "offline_upstream n u auth = Inl (Exn RequestException ''Connection refused'')"


definition start_io :: io where
  "start_io = \<lparr>clock_reads = 0, http_calls = 0\<rparr>"

text \<open>The two series of the forecast example: temperatures 70 and 75, symbols "1" and "5".\<close>

definition temperature_series :: pyval where
  "temperature_series = PList [sample ''d1'' (PInt 70), sample ''d2'' (PInt 75)]"

definition symbol_series :: pyval where
  "symbol_series = PList [sample ''d1'' (PStr ''1''), sample ''d2'' (PStr ''5'')]"

section \<open>The positional join, as the specification words it\<close>

text \<open>
  Section 4.4 of the specification describes the loop of \<^verbatim>\<open>display_5_day_forecast\<close> as
  a function \<open>build_forecast_days\<close> of the two series: for each position take the date
  and the temperature from the temperature series, the value from the symbol series at
  the same position, convert it to an integer, resolve it, and emit a day. This
  definition follows those words; the source's loop is \<open>display_loop\<close> above. The first
  exception ends the sequence, as it does in the source.
\<close>

definition positional_day :: "pyval \<Rightarrow> pyval \<Rightarrow> exn + forecast_day" where
  "positional_day day entry =
     try_bind (getitem day (Key ''date'')) (\<lambda>date.
     try_bind (getitem day (Key ''value'')) (\<lambda>temperature.
     try_bind (getitem entry (Key ''value'')) (\<lambda>v.
     try_bind (py_int v) (\<lambda>symbol_id.
       (case get_weather_symbol_description symbol_id of
          (symbol_description, symbol_icon) \<Rightarrow>
            Inr (ForecastDay date temperature symbol_description symbol_icon))))))"

fun build_forecast_days :: "pyval list \<Rightarrow> pyval list \<Rightarrow> forecast_day list \<times> exn option" where
  "build_forecast_days (day # days) (entry # entries) =
     (case positional_day day entry of
        Inl e \<Rightarrow> ([], Some e)
      | Inr d \<Rightarrow>
          (case build_forecast_days days entries of
             (ds, r) \<Rightarrow> (d # ds, r)))"
| "build_forecast_days days entries = ([], None)"

text \<open>
  Two provider answers used below: a temperature series that holds the same sample
  twice, with a symbol series of the same dates whose values differ; and a symbol
  series whose value is \<^verbatim>\<open>null\<close>.
\<close>

definition duplicate_temperatures :: "pyval list" where
  "duplicate_temperatures = [sample ''d1'' (PInt 70), sample ''d1'' (PInt 70)]"

definition duplicate_symbols :: "pyval list" where
  "duplicate_symbols = [sample ''d1'' (PStr ''1''), sample ''d1'' (PStr ''5'')]"

definition null_symbol_forecast :: pyval where
  "null_symbol_forecast =
     PList [PList [sample ''d1'' (PInt 70)], PList [sample ''d1'' PNone]]"

section \<open>The symbol table: facts\<close>

lemma weather_symbol_map_distinct: "distinct (map fst weather_symbol_map)"
  by (simp add: weather_symbol_map_def)

lemma weather_symbol_map_keys:
  "c \<in> fst ` set weather_symbol_map \<longleftrightarrow> (0 \<le> c \<and> c \<le> 16) \<or> (101 \<le> c \<and> c \<le> 116)"
  unfolding weather_symbol_map_def by (simp del: One_nat_def) presburger


text \<open>
  C4. The symbol resolver is a total function on the integers: every registered code, that
  is every code from 0 to 16 and from 101 to 116, gives the pair registered for it;
  every other integer gives the fallback pair; code 0 gives "could not be determined"
  and code 105 gives "Rain (night)".
\<close>

theorem get_weather_symbol_description_total:
  fixes c :: int
  shows "((c, p) \<in> set weather_symbol_map \<longrightarrow> get_weather_symbol_description c = p)
    \<and> (c \<notin> fst ` set weather_symbol_map \<longrightarrow>
         get_weather_symbol_description c = (''Unknown symbol'', glyph_question))
    \<and> (c \<in> fst ` set weather_symbol_map \<longleftrightarrow> (0 \<le> c \<and> c \<le> 16) \<or> (101 \<le> c \<and> c \<le> 116))
    \<and> get_weather_symbol_description 0 =
         (''A weather symbol could not be determined'', glyph_question)
    \<and> get_weather_symbol_description 105 = (''Rain (night)'', glyph_rain)"
proof -
  have a: "(c, p) \<in> set weather_symbol_map \<longrightarrow> get_weather_symbol_description c = p"
    using weather_symbol_map_distinct
    by (simp add: get_weather_symbol_description_def dict_get_def)
  have "c \<notin> fst ` set weather_symbol_map \<Longrightarrow> map_of weather_symbol_map c = None"
    by (simp add: map_of_eq_None_iff)
  then have b: "c \<notin> fst ` set weather_symbol_map \<longrightarrow>
      get_weather_symbol_description c = (''Unknown symbol'', glyph_question)"
    by (simp add: get_weather_symbol_description_def dict_get_def)
  have d: "get_weather_symbol_description 0 =
         (''A weather symbol could not be determined'', glyph_question)"
    by (simp add: get_weather_symbol_description_def dict_get_def weather_symbol_map_def)
  have e: "get_weather_symbol_description 105 = (''Rain (night)'', glyph_rain)"
    by (simp add: get_weather_symbol_description_def dict_get_def weather_symbol_map_def)
  from a b weather_symbol_map_keys [of c] d e show ?thesis by blast
qed

theorem get_weather_symbol_description_total_witness:
  "(5, ''Rain'', glyph_rain) \<in> set weather_symbol_map
   \<and> get_weather_symbol_description 5 = (''Rain'', glyph_rain)
   \<and> (17::int) \<notin> fst ` set weather_symbol_map
   \<and> get_weather_symbol_description 17 = (''Unknown symbol'', glyph_question)"
proof -
  have m: "(5, ''Rain'', glyph_rain) \<in> set weather_symbol_map"
    by (simp add: weather_symbol_map_def)
  have n: "(17::int) \<notin> fst ` set weather_symbol_map"
    by (simp add: weather_symbol_map_keys)
  from get_weather_symbol_description_total [of 5 "(''Rain'', glyph_rain)"] m
  have "get_weather_symbol_description 5 = (''Rain'', glyph_rain)" by blast
  moreover from get_weather_symbol_description_total [of 17] n
  have "get_weather_symbol_description 17 = (''Unknown symbol'', glyph_question)" by blast
  ultimately show ?thesis using m n by blast
qed

section \<open>Sequencing and the loops\<close>

lemma try_bind_simps [simp]:
  "try_bind (Inl e) f = Inl e"
  "try_bind (Inr x) f = f x"
  by (simp_all add: try_bind_def)

lemma first_description_none:
  "\<forall>item \<in> set items. find_child ''description'' item = None \<Longrightarrow>
   first_description items = PStr ''No description available.''"
  by (induction items) simp_all

lemma first_description_at:
  "i < length items \<Longrightarrow> \<forall>j<i. find_child ''description'' (items ! j) = None \<Longrightarrow>
   find_child ''description'' (items ! i) = Some d \<Longrightarrow>
   first_description items = text_value (el_text d)"
proof (induction items arbitrary: i)
  case Nil
  then show ?case by simp
next
  case (Cons item items)
  show ?case
  proof (cases i)
    case 0
    with Cons.prems show ?thesis by simp
  next
    case (Suc k)
    with Cons.prems have "find_child ''description'' item = None"
      by (metis nth_Cons_0 zero_less_Suc)
    moreover have "first_description items = text_value (el_text d)"
    proof (rule Cons.IH)
      show "k < length items" using Cons.prems Suc by simp
      show "\<forall>j<k. find_child ''description'' (items ! j) = None"
        using Cons.prems(2) Suc by (metis Suc_less_eq nth_Cons_Suc)
      show "find_child ''description'' (items ! k) = Some d"
        using Cons.prems(3) Suc by simp
    qed
    ultimately show ?thesis by simp
  qed
qed

lemma rss_result:
  "fst (fetch_first_description_from_rss env u s) =
     (case requests_get env (http_calls s) u None of
        Inl e \<Rightarrow> PStr (''Error fetching data: '' @ str_exn e)
      | Inr response \<Rightarrow>
          (case fromstring env (content response) of
             Inl e \<Rightarrow> PStr (''Error fetching data: '' @ str_exn e)
           | Inr doc \<Rightarrow> first_description (findall_descendants ''item'' doc)))"
  by (simp add: fetch_first_description_from_rss_def rss_try_def http_get_def
      split: sum.splits)

lemma weather_loop_step:
  "weather_loop env ((param, endpoint) # rest) wd s =
     weather_loop env rest
       (dict_set wd param
          (entry_of param (try_bind (requests_get env (http_calls s)
                   (current_url env (utcnow env (clock_reads s)) endpoint)
                   (Some (username env, password env))) (current_value env))))
       (s\<lparr>clock_reads := Suc (clock_reads s), http_calls := Suc (http_calls s)\<rparr>)"
  by (simp add: current_try_def datetime_utcnow_def http_get_def error_text_def entry_of_def
      split: sum.splits)

lemma fetch_weather_data_result:
  "fst (fetch_weather_data env latitude longitude s) =
     [(''temperature'', entry_of ''temperature'' (current_outcome env latitude longitude s 0)),
      (''weather_symbol'', entry_of ''weather_symbol'' (current_outcome env latitude longitude s 1)),
      (''heavy_rain_warning'',
         entry_of ''heavy_rain_warning'' (current_outcome env latitude longitude s 2)),
      (''air_quality'', entry_of ''air_quality'' (current_outcome env latitude longitude s 3))]"
  unfolding fetch_weather_data_def current_outcome_def current_request_def
  by (simp add: current_params_def weather_loop_step numeral_2_eq_2 numeral_3_eq_3
      del: weather_loop.simps(2))


lemma forecast_loop_step:
  "forecast_loop env st en ((param, endpoint) # rest) fd s =
     (case try_bind (requests_get env (http_calls s) (forecast_url env st en endpoint)
                  (Some (username env, password env))) (forecast_dates env) of
        Inr dates \<Rightarrow> forecast_loop env st en rest (fd @ [dates])
                       (s\<lparr>http_calls := Suc (http_calls s)\<rparr>)
      | Inl e \<Rightarrow> (error_text param e, s\<lparr>http_calls := Suc (http_calls s)\<rparr>))"
  by (simp add: forecast_try_def http_get_def error_text_def split: sum.splits)

lemma fetch_5_day_forecast_result:
  "fst (fetch_5_day_forecast env latitude longitude s) =
     (case forecast_outcome env latitude longitude s 0 of
        Inl e \<Rightarrow> error_text ''temperature'' e
      | Inr t \<Rightarrow>
          (case forecast_outcome env latitude longitude s 1 of
             Inl e \<Rightarrow> error_text ''weather_symbol'' e
           | Inr w \<Rightarrow> PList [t, w]))"
  unfolding fetch_5_day_forecast_def forecast_outcome_def forecast_request_def
  by (simp add: forecast_params_def forecast_loop_step datetime_utcnow_def
      del: forecast_loop.simps(2) split: sum.splits)

lemma fetch_5_day_forecast_calls:
  "http_calls (snd (fetch_5_day_forecast env latitude longitude s)) =
     (case forecast_outcome env latitude longitude s 0 of
        Inl e \<Rightarrow> http_calls s + 1 | Inr t \<Rightarrow> http_calls s + 2)"
  unfolding fetch_5_day_forecast_def forecast_outcome_def forecast_request_def
  by (simp add: forecast_params_def forecast_loop_step datetime_utcnow_def
      del: forecast_loop.simps(2) split: sum.splits)

section \<open>The feed reader\<close>

lemma iter_el_unfold: "iter_el e = e # concat (map iter_el (el_children e))"
  by (cases e) simp

lemma item_descriptions_of_unfold:
  "item_descriptions_of b e =
     (if b \<and> el_tag e = ''description'' then [e] else [])
     @ concat (map (item_descriptions_of (el_tag e = ''item'')) (el_children e))"
  by (cases e) simp

lemma findall_items_in:
  "findall_descendants ''item'' e = concat (map items_in (el_children e))"
  unfolding findall_descendants_def items_in_def by (simp add: filter_concat comp_def)

lemma items_in_unfold:
  "items_in e = (if el_tag e = ''item'' then [e] else []) @ findall_descendants ''item'' e"
  by (subst items_in_def, subst iter_el_unfold) (simp add: findall_descendants_def)

lemma items_in_rec:
  "items_in e = (if el_tag e = ''item'' then [e] else []) @ concat (map items_in (el_children e))"
  by (simp only: items_in_unfold [of e] findall_items_in)

lemma items_in_Nil:
  "items_in e = [] \<longleftrightarrow> el_tag e \<noteq> ''item'' \<and> (\<forall>c \<in> set (el_children e). items_in c = [])"
  using items_in_rec [of e] by auto

lemma concat_map_Nil: "(\<And>x. x \<in> set xs \<Longrightarrow> f x = []) \<Longrightarrow> concat (map f xs) = []"
  by (induction xs) simp_all

text \<open>An element with no item in it contributes nothing unless it is itself the description asked for.\<close>

lemma no_items_no_descriptions:
  "items_in e = [] \<Longrightarrow> item_descriptions_of False e = []"
proof (induction e)
  case (Element t x cs)
  have t: "t \<noteq> ''item''"
    using Element.prems items_in_Nil [of "Element t x cs"] by simp
  have cs: "items_in c = []" if "c \<in> set cs" for c
    using Element.prems that items_in_Nil [of "Element t x cs"] by simp
  have "concat (map (item_descriptions_of False) cs) = []"
    by (rule concat_map_Nil) (simp add: Element.IH cs)
  with t show ?case by simp
qed

lemma child_of_flat_item:
  assumes "items_in c = []"
  shows "item_descriptions_of True c = (if el_tag c = ''description'' then [c] else [])"
proof -
  have t: "el_tag c \<noteq> ''item''" using assms items_in_Nil [of c] by simp
  have "concat (map (item_descriptions_of False) (el_children c)) = []"
  proof (rule concat_map_Nil)
    fix x assume "x \<in> set (el_children c)"
    then have "items_in x = []" using assms items_in_Nil [of c] by simp
    then show "item_descriptions_of False x = []" by (rule no_items_no_descriptions)
  qed
  with t show ?thesis by (subst item_descriptions_of_unfold) simp
qed

lemma concat_map_concat:
  "concat (map (\<lambda>c. concat (map f (g c))) cs) = concat (map f (concat (map g cs)))"
  by (induction cs) simp_all

lemma find_filter_head:
  "List.find P xs = (case filter P xs of [] \<Rightarrow> None | d # _ \<Rightarrow> Some d)"
  by (induction xs) simp_all

lemma concat_map_singleton_filter:
  "concat (map (\<lambda>c. if P c then [c] else []) xs) = filter P xs"
  by (induction xs) simp_all

lemma flat_item_descriptions:
  assumes "el_tag e = ''item''" and "findall_descendants ''item'' e = []"
  shows "item_descriptions_of False e = description_children e"
proof -
  have c: "items_in c = []" if "c \<in> set (el_children e)" for c
    using assms(2) that by (auto simp: findall_items_in)
  have "concat (map (item_descriptions_of True) (el_children e))
          = concat (map (\<lambda>c. if el_tag c = ''description'' then [c] else []) (el_children e))"
    by (rule arg_cong [where f = concat]) (simp add: child_of_flat_item c)
  then show ?thesis
    using assms(1)
    by (subst item_descriptions_of_unfold)
       (simp add: description_children_def concat_map_singleton_filter)
qed

lemma descriptions_of_items:
  "(\<forall>item \<in> set (items_in e). findall_descendants ''item'' item = []) \<Longrightarrow>
   item_descriptions_of False e = concat (map description_children (items_in e))"
proof (induction e)
  case (Element t x cs)
  show ?case
  proof (cases "t = ''item''")
    case True
    have i: "items_in (Element t x cs) = Element t x cs # findall_descendants ''item'' (Element t x cs)"
      using True items_in_unfold [of "Element t x cs"] by simp
    have f: "findall_descendants ''item'' (Element t x cs) = []"
      using Element.prems unfolding i by simp
    show ?thesis
      using True flat_item_descriptions [of "Element t x cs", OF _ f] unfolding i f by simp
  next
    case False
    have i: "items_in (Element t x cs) = concat (map items_in cs)"
      using False items_in_rec [of "Element t x cs"] by simp
    have sub: "\<forall>item \<in> set (items_in c). findall_descendants ''item'' item = []"
      if "c \<in> set cs" for c
      using Element.prems that unfolding i by auto
    have "concat (map (item_descriptions_of False) cs)
            = concat (map (\<lambda>c. concat (map description_children (items_in c))) cs)"
      by (rule arg_cong [where f = concat]) (simp add: Element.IH sub)
    also have "\<dots> = concat (map description_children (concat (map items_in cs)))"
      by (rule concat_map_concat)
    finally show ?thesis using False unfolding i by simp
  qed
qed

lemma item_descriptions_flat:
  assumes "flat_items doc"
  shows "item_descriptions doc
           = concat (map description_children (findall_descendants ''item'' doc))"
proof -
  have sub: "\<forall>item \<in> set (items_in c). findall_descendants ''item'' item = []"
    if "c \<in> set (el_children doc)" for c
    using assms that by (auto simp: flat_items_def findall_items_in)
  have "concat (map (item_descriptions_of False) (el_children doc))
          = concat (map (\<lambda>c. concat (map description_children (items_in c))) (el_children doc))"
    by (rule arg_cong [where f = concat]) (simp add: descriptions_of_items sub)
  also have "\<dots> = concat (map description_children (concat (map items_in (el_children doc))))"
    by (rule concat_map_concat)
  finally show ?thesis by (simp add: item_descriptions_def findall_items_in)
qed

lemma find_child_description:
  "find_child ''description'' item =
     (case description_children item of [] \<Rightarrow> None | d # _ \<Rightarrow> Some d)"
  unfolding find_child_def description_children_def by (rule find_filter_head)

lemma first_description_concat:
  "first_description items =
     (case concat (map description_children items) of
        [] \<Rightarrow> PStr ''No description available.''
      | d # _ \<Rightarrow> text_value (el_text d))"
proof (induction items)
  case Nil
  then show ?case by simp
next
  case (Cons item items)
  show ?case
  proof (cases "description_children item")
    case Nil
    then show ?thesis using Cons.IH by (simp add: find_child_description)
  next
    case (Cons d ds)
    then show ?thesis by (simp add: find_child_description)
  qed
qed

lemma first_description_document_order:
  assumes "flat_items doc"
  shows "first_description (findall_descendants ''item'' doc) =
     (case item_descriptions doc of
        [] \<Rightarrow> PStr ''No description available.''
      | d # _ \<Rightarrow> text_value (el_text d))"
  by (simp add: first_description_concat item_descriptions_flat [OF assms])

text \<open>
  Where an item lies inside an item the two orders part: the loop asks the outer item
  first and returns its description, though the inner one comes first in the document.
\<close>

lemma nested_items_example:
  "first_description (findall_descendants ''item'' nested_item_document) = PStr ''outer''"
  "map el_text (item_descriptions nested_item_document) = [Some ''inner'', Some ''outer'']"
  by (simp_all add: nested_item_document_def findall_descendants_def find_child_def
      text_value_def item_descriptions_def)

lemma first_description_is_value:
  "first_description items = PNone \<or> (\<exists>t. first_description items = PStr t)"
  by (induction items) (auto simp: text_value_def split: option.splits)

text \<open>
  C5. When the request is answered and the body parses, the feed reader goes through the
  item elements of the document in document order and returns the text of the
  description child of the first item that has one; when no item has a description
  child, and so when there is no item at all, it returns the text
  "No description available.". In a feed, where no item lies inside another, this is
  the text of the first description, in document order, among the description
  children of all items. On the feed with two items of which only the second has a
  description, "Tropical storm forming", it returns that text.
\<close>

theorem fetch_first_description_first_found:
  assumes "requests_get env (http_calls s) u None = Inr response"
    and "fromstring env (content response) = Inr doc"
  shows "(\<forall>i d. i < length (findall_descendants ''item'' doc)
            \<and> (\<forall>j<i. find_child ''description'' (findall_descendants ''item'' doc ! j) = None)
            \<and> find_child ''description'' (findall_descendants ''item'' doc ! i) = Some d
          \<longrightarrow> fst (fetch_first_description_from_rss env u s) = text_value (el_text d))
    \<and> ((\<forall>item \<in> set (findall_descendants ''item'' doc).
            find_child ''description'' item = None)
          \<longrightarrow> fst (fetch_first_description_from_rss env u s)
                = PStr ''No description available.'')
    \<and> (flat_items doc
          \<longrightarrow> fst (fetch_first_description_from_rss env u s)
                = (case item_descriptions doc of
                     [] \<Rightarrow> PStr ''No description available.''
                   | d # _ \<Rightarrow> text_value (el_text d)))"
proof -
  have r: "fst (fetch_first_description_from_rss env u s)
             = first_description (findall_descendants ''item'' doc)"
    using assms by (simp add: rss_result)
  show ?thesis
    unfolding r
    using first_description_at first_description_none first_description_document_order
    by blast
qed

lemma two_item_feed_items:
  "findall_descendants ''item'' two_item_feed =
     [Element ''item'' None [Element ''title'' (Some ''First'') []],
      Element ''item'' None
        [Element ''title'' (Some ''Second'') [],
         Element ''description'' (Some ''Tropical storm forming'') []]]"
  by (simp add: findall_descendants_def two_item_feed_def)

theorem fetch_first_description_first_found_witness:
  "fst (fetch_first_description_from_rss (mock_env feed_upstream) RSS_FEED_NHC start_io)
     = PStr ''Tropical storm forming''
   \<and> fst (fetch_first_description_from_rss (mock_env feed_upstream) ''no-items'' start_io)
     = PStr ''No description available.''
   \<and> flat_items two_item_feed
   \<and> fst (fetch_first_description_from_rss (mock_env feed_upstream) RSS_FEED_NHC start_io)
     = (case item_descriptions two_item_feed of
          [] \<Rightarrow> PStr ''No description available.''
        | d # _ \<Rightarrow> text_value (el_text d))"
proof -
  let ?env = "mock_env feed_upstream"
  let ?d = "Element ''description'' (Some ''Tropical storm forming'') []"
  have g: "requests_get ?env (http_calls start_io) RSS_FEED_NHC None
             = Inr (ok_response RSS_FEED_NHC ''two-item-feed'')"
    by (simp add: mock_env_def feed_upstream_def)
  have p: "fromstring ?env (content (ok_response RSS_FEED_NHC ''two-item-feed'')) = Inr two_item_feed"
    by (simp add: mock_env_def mock_fromstring_def ok_response_def)
  have h: "(1::nat) < length (findall_descendants ''item'' two_item_feed)
      \<and> (\<forall>j<1. find_child ''description'' (findall_descendants ''item'' two_item_feed ! j) = None)
      \<and> find_child ''description'' (findall_descendants ''item'' two_item_feed ! 1) = Some ?d"
    by (simp add: two_item_feed_items find_child_def)
  from fetch_first_description_first_found [OF g p] h
  have a: "fst (fetch_first_description_from_rss ?env RSS_FEED_NHC start_io)
             = text_value (el_text ?d)"
    by blast
  have g': "requests_get ?env (http_calls start_io) ''no-items'' None
             = Inr (ok_response ''no-items'' ''no-item-feed'')"
    by (simp add: mock_env_def feed_upstream_def RSS_FEED_NHC_def RSS_FEED_SPC_def)
  have p': "fromstring ?env (content (ok_response ''no-items'' ''no-item-feed''))
             = Inr (Element ''rss'' None [Element ''channel'' None []])"
    by (simp add: mock_env_def mock_fromstring_def ok_response_def)
  have h': "\<forall>item \<in> set (findall_descendants ''item''
                (Element ''rss'' None [Element ''channel'' None []])).
              find_child ''description'' item = None"
    by (simp add: findall_descendants_def)
  from fetch_first_description_first_found [OF g' p'] h'
  have b: "fst (fetch_first_description_from_rss ?env ''no-items'' start_io)
             = PStr ''No description available.''"
    by blast
  have f: "flat_items two_item_feed"
    unfolding flat_items_def two_item_feed_items by (simp add: findall_descendants_def)
  from fetch_first_description_first_found [OF g p] f
  have c: "fst (fetch_first_description_from_rss ?env RSS_FEED_NHC start_io)
             = (case item_descriptions two_item_feed of
                  [] \<Rightarrow> PStr ''No description available.''
                | d # _ \<Rightarrow> text_value (el_text d))"
    by blast
  from a b have "fst (fetch_first_description_from_rss ?env RSS_FEED_NHC start_io)
                   = PStr ''Tropical storm forming''
                 \<and> fst (fetch_first_description_from_rss ?env ''no-items'' start_io)
                   = PStr ''No description available.''"
    by (simp add: text_value_def)
  with f c show ?thesis by (simp only: simp_thms)
qed

text \<open>
  C6. When the request raises, or the body does not parse as XML, the feed reader returns
  the text "Error fetching data: " followed by the text of the exception. In every case
  it returns a value, a text or \<^verbatim>\<open>None\<close>: no exception leaves the function.
\<close>

theorem fetch_first_description_errors_as_values:
  "(requests_get env (http_calls s) u None = Inl e \<longrightarrow>
      fst (fetch_first_description_from_rss env u s)
        = PStr (''Error fetching data: '' @ str_exn e))
   \<and> (requests_get env (http_calls s) u None = Inr response
        \<and> fromstring env (content response) = Inl e \<longrightarrow>
      fst (fetch_first_description_from_rss env u s)
        = PStr (''Error fetching data: '' @ str_exn e))
   \<and> (fst (fetch_first_description_from_rss env u s) = PNone
        \<or> (\<exists>t. fst (fetch_first_description_from_rss env u s) = PStr t))"
proof -
  have "fst (fetch_first_description_from_rss env u s) = PNone
        \<or> (\<exists>t. fst (fetch_first_description_from_rss env u s) = PStr t)"
    using first_description_is_value by (simp add: rss_result split: sum.splits)
  then show ?thesis by (simp add: rss_result)
qed

theorem fetch_first_description_errors_as_values_witness:
  "fst (fetch_first_description_from_rss (mock_env feed_upstream) ''offline'' start_io)
     = PStr ''Error fetching data: Connection refused''
   \<and> fst (fetch_first_description_from_rss (mock_env feed_upstream) RSS_FEED_SPC start_io)
     = PStr ''Error fetching data: syntax error: line 1, column 0''"
proof -
  let ?env = "mock_env feed_upstream"
  have g: "requests_get ?env (http_calls start_io) ''offline'' None
             = Inl (Exn RequestException ''Connection refused'')"
    by (simp add: mock_env_def feed_upstream_def RSS_FEED_NHC_def RSS_FEED_SPC_def)
  have g': "requests_get ?env (http_calls start_io) RSS_FEED_SPC None
             = Inr (ok_response RSS_FEED_SPC ''this is not XML'')
            \<and> fromstring ?env (content (ok_response RSS_FEED_SPC ''this is not XML''))
             = Inl (Exn ParseError ''syntax error: line 1, column 0'')"
    by (simp add: mock_env_def feed_upstream_def RSS_FEED_NHC_def RSS_FEED_SPC_def
        mock_fromstring_def ok_response_def)
  from fetch_first_description_errors_as_values
         [of ?env start_io "''offline''" "Exn RequestException ''Connection refused''"] g
  have a: "fst (fetch_first_description_from_rss ?env ''offline'' start_io)
             = PStr (''Error fetching data: '' @ str_exn (Exn RequestException ''Connection refused''))"
    by blast
  from fetch_first_description_errors_as_values
         [of ?env start_io RSS_FEED_SPC "Exn ParseError ''syntax error: line 1, column 0''"
             "ok_response RSS_FEED_SPC ''this is not XML''"] g'
  have b: "fst (fetch_first_description_from_rss ?env RSS_FEED_SPC start_io)
             = PStr (''Error fetching data: ''
                     @ str_exn (Exn ParseError ''syntax error: line 1, column 0''))"
    by blast
  from a b show ?thesis by simp
qed

text \<open>
  C9. When the first item that has a description child has an empty one (its text is
  \<^verbatim>\<open>None\<close>), the feed reader returns \<^verbatim>\<open>None\<close>, not a text, and in particular
  not "No description available.".
\<close>

theorem fetch_first_description_empty_is_None:
  assumes "requests_get env (http_calls s) u None = Inr response"
    and "fromstring env (content response) = Inr doc"
    and "i < length (findall_descendants ''item'' doc)"
    and "\<forall>j<i. find_child ''description'' (findall_descendants ''item'' doc ! j) = None"
    and "find_child ''description'' (findall_descendants ''item'' doc ! i) = Some d"
    and "el_text d = None"
  shows "fst (fetch_first_description_from_rss env u s) = PNone
    \<and> fst (fetch_first_description_from_rss env u s) \<noteq> PStr ''No description available.''"
proof -
  have "fst (fetch_first_description_from_rss env u s)
          = first_description (findall_descendants ''item'' doc)"
    using assms(1,2) by (simp add: rss_result)
  also have "\<dots> = text_value (el_text d)"
    using assms(3,4,5) by (rule first_description_at)
  finally show ?thesis using assms(6) by (simp add: text_value_def)
qed

theorem fetch_first_description_empty_is_None_witness:
  "fst (fetch_first_description_from_rss (mock_env feed_upstream) ''empty'' start_io) = PNone"
proof -
  let ?env = "mock_env feed_upstream"
  let ?items = "findall_descendants ''item'' empty_description_feed"
  have items: "?items =
     [Element ''item'' None [Element ''title'' (Some ''First'') []],
      Element ''item'' None [Element ''description'' None []],
      Element ''item'' None [Element ''description'' (Some ''Later text'') []]]"
    by (simp add: findall_descendants_def empty_description_feed_def)
  have g: "requests_get ?env (http_calls start_io) ''empty'' None
             = Inr (ok_response ''empty'' ''empty-description-feed'')"
    by (simp add: mock_env_def feed_upstream_def RSS_FEED_NHC_def RSS_FEED_SPC_def)
  have p: "fromstring ?env (content (ok_response ''empty'' ''empty-description-feed''))
             = Inr empty_description_feed"
    by (simp add: mock_env_def mock_fromstring_def ok_response_def)
  have h1: "(1::nat) < length ?items" by (simp add: items)
  have h2: "\<forall>j<(1::nat). find_child ''description'' (?items ! j) = None"
    by (simp add: items find_child_def)
  have h3: "find_child ''description'' (?items ! 1) = Some (Element ''description'' None [])"
    by (simp add: items find_child_def)
  have h4: "el_text (Element ''description'' None []) = None" by simp
  from fetch_first_description_empty_is_None [OF g p h1 h2 h3 h4]
  show ?thesis by blast
qed

section \<open>The weather client\<close>

lemma show_int_500: "show_int 500 = ''500''"
  by (simp add: show_int_def show_nat.simps [of 500] show_nat.simps [of 50]
      show_nat.simps [of 5])

lemma raise_for_status_error:
  "400 \<le> status_code r \<Longrightarrow> status_code r < 600 \<Longrightarrow> \<exists>m. raise_for_status r = Inl (Exn HTTPError m)"
  by (simp add: raise_for_status_def)


lemma current_value_cong: "json env1 = json env2 \<Longrightarrow> current_value env1 = current_value env2"
  by (rule ext) (simp add: current_value_def)

lemma forecast_dates_cong: "json env1 = json env2 \<Longrightarrow> forecast_dates env1 = forecast_dates env2"
  by (rule ext) (simp add: forecast_dates_def)

lemma less_4_cases: "k < (4::nat) \<Longrightarrow> k = 0 \<or> k = 1 \<or> k = 2 \<or> k = 3"
  by arith

lemma fetch_weather_data_keys:
  "map fst (fst (fetch_weather_data env latitude longitude s)) =
     [''temperature'', ''weather_symbol'', ''heavy_rain_warning'', ''air_quality'']"
  by (simp add: fetch_weather_data_result)

lemma fetch_weather_data_entry:
  assumes "k < 4"
  shows "fst (fetch_weather_data env latitude longitude s) ! k =
           (fst (current_params latitude longitude ! k),
            entry_of (fst (current_params latitude longitude ! k))
              (current_outcome env latitude longitude s k))"
  using less_4_cases [OF assms]
  by (auto simp: fetch_weather_data_result current_params_def)

text \<open>
  C3. The mapping that the current-weather fetch returns has exactly the four parameter
  names as its keys, in the order of the source. The entry of a parameter is decided by
  that parameter's own request alone: when the request raises, when the status is from
  400 to 599 (the statuses for which \<^verbatim>\<open>raise_for_status\<close> raises), when the body is no
  JSON or when the envelope has not the expected shape, the entry is the text
  "Error fetching <name>: <exception>"; otherwise it is the value. The function returns
  the mapping in every case.
\<close>

theorem fetch_weather_data_per_parameter:
  "map fst (fst (fetch_weather_data env latitude longitude s)) =
     [''temperature'', ''weather_symbol'', ''heavy_rain_warning'', ''air_quality'']
   \<and> (\<forall>k<4. \<forall>e. current_outcome env latitude longitude s k = Inl e \<longrightarrow>
         snd (fst (fetch_weather_data env latitude longitude s) ! k) =
           PStr (''Error fetching '' @ fst (fst (fetch_weather_data env latitude longitude s) ! k)
                 @ '': '' @ str_exn e))
   \<and> (\<forall>k<4. \<forall>v. current_outcome env latitude longitude s k = Inr v \<longrightarrow>
         snd (fst (fetch_weather_data env latitude longitude s) ! k) = v)
   \<and> (\<forall>k<4. \<forall>e. current_request env latitude longitude s k = Inl e \<longrightarrow>
         current_outcome env latitude longitude s k = Inl e)
   \<and> (\<forall>k<4. \<forall>r. current_request env latitude longitude s k = Inr r
         \<and> 400 \<le> status_code r \<and> status_code r < 600 \<longrightarrow>
         (\<exists>m. current_outcome env latitude longitude s k = Inl (Exn HTTPError m)))
   \<and> (\<forall>k<4. \<forall>r e. current_request env latitude longitude s k = Inr r
         \<and> raise_for_status r = Inr () \<and> json env r = Inl e \<longrightarrow>
         current_outcome env latitude longitude s k = Inl e)
   \<and> (\<forall>k<4. \<forall>r data e. current_request env latitude longitude s k = Inr r
         \<and> raise_for_status r = Inr () \<and> json env r = Inr data
         \<and> getpath data [Key ''data'', Idx 0, Key ''coordinates'', Idx 0, Key ''dates'', Idx 0,
                          Key ''value''] = Inl e \<longrightarrow>
         current_outcome env latitude longitude s k = Inl e)"
proof (intro conjI allI impI)
  show "map fst (fst (fetch_weather_data env latitude longitude s)) =
     [''temperature'', ''weather_symbol'', ''heavy_rain_warning'', ''air_quality'']"
    by (rule fetch_weather_data_keys)
next
  fix k e assume "k < 4" and "current_outcome env latitude longitude s k = Inl e"
  then show "snd (fst (fetch_weather_data env latitude longitude s) ! k) =
           PStr (''Error fetching '' @ fst (fst (fetch_weather_data env latitude longitude s) ! k)
                 @ '': '' @ str_exn e)"
    by (simp add: fetch_weather_data_entry entry_of_def error_text_def)
next
  fix k v assume "k < 4" and "current_outcome env latitude longitude s k = Inr v"
  then show "snd (fst (fetch_weather_data env latitude longitude s) ! k) = v"
    by (simp add: fetch_weather_data_entry entry_of_def)
next
  fix k e assume "current_request env latitude longitude s k = Inl e"
  then show "current_outcome env latitude longitude s k = Inl e"
    by (simp add: current_outcome_def)
next
  fix k r
  assume "current_request env latitude longitude s k = Inr r
         \<and> 400 \<le> status_code r \<and> status_code r < 600"
  then show "\<exists>m. current_outcome env latitude longitude s k = Inl (Exn HTTPError m)"
    using raise_for_status_error [of r]
    by (auto simp: current_outcome_def current_value_def)
next
  fix k r e
  assume "current_request env latitude longitude s k = Inr r
         \<and> raise_for_status r = Inr () \<and> json env r = Inl e"
  then show "current_outcome env latitude longitude s k = Inl e"
    by (simp add: current_outcome_def current_value_def)
next
  fix k r data e
  assume "current_request env latitude longitude s k = Inr r
         \<and> raise_for_status r = Inr () \<and> json env r = Inr data
         \<and> getpath data [Key ''data'', Idx 0, Key ''coordinates'', Idx 0, Key ''dates'', Idx 0,
                          Key ''value''] = Inl e"
  then show "current_outcome env latitude longitude s k = Inl e"
    by (simp add: current_outcome_def current_value_def)
qed

lemma mock_current_urls:
  "current_url_of (mock_env get) LATITUDE LONGITUDE start_io 0
     = ''https://api.meteomatics.com/2024-09-30T12:00:00Z/t_2m:F/33.4473,-84.1469/json''"
  "current_url_of (mock_env get) LATITUDE LONGITUDE start_io 1
     = ''https://api.meteomatics.com/2024-09-30T12:00:01Z/weather_symbol_1h:idx/33.4473,-84.1469/json''"
  by (simp_all add: current_url_of_def current_url_def current_params_def mock_env_def
      start_io_def LATITUDE_def LONGITUDE_def)

lemma mock_current_requests:
  "current_request (mock_env current_upstream) latitude longitude start_io 0
     = Inr (ok_response (current_url_of (mock_env current_upstream) latitude longitude start_io 0)
              ''now-temperature'')"
  "current_request (mock_env current_upstream) latitude longitude start_io 1
     = Inr (server_error_response
              (current_url_of (mock_env current_upstream) latitude longitude start_io 1))"
  "current_request (mock_env current_upstream) latitude longitude start_io 2
     = Inr (ok_response (current_url_of (mock_env current_upstream) latitude longitude start_io 2)
              ''not JSON'')"
  "current_request (mock_env current_upstream) latitude longitude start_io 3
     = Inl (Exn RequestException ''Connection refused'')"
  by (simp_all add: current_request_def current_url_of_def mock_env_def current_upstream_def
      start_io_def)

lemma mock_current_outcomes:
  "current_outcome (mock_env current_upstream) latitude longitude start_io 0
     = Inr (PFloat (Finite (145 / 2)))"
  "current_outcome (mock_env current_upstream) latitude longitude start_io 1
     = Inl (Exn HTTPError (''500 Server Error: Internal Server Error for url: ''
              @ current_url_of (mock_env current_upstream) latitude longitude start_io 1))"
  "current_outcome (mock_env current_upstream) latitude longitude start_io 2
     = Inl (Exn JSONDecodeError ''Expecting value: line 1 column 1 (char 0)'')"
  "current_outcome (mock_env current_upstream) latitude longitude start_io 3
     = Inl (Exn RequestException ''Connection refused'')"
  unfolding current_outcome_def mock_current_requests
  by (simp_all add: current_value_def raise_for_status_def ok_response_def
      server_error_response_def show_int_500 mock_env_def mock_json_def envelope_def sample_def)

lemma mock_responses:
  "raise_for_status (ok_response u body) = Inr ()"
  "json (mock_env get) (ok_response u ''not JSON'')
     = Inl (Exn JSONDecodeError ''Expecting value: line 1 column 1 (char 0)'')"
  "json (mock_env get) (ok_response u ''empty-envelope'') = Inr (PDict [(''data'', PList [])])"
  "status_code (server_error_response u) = 500"
  by (simp_all add: raise_for_status_def ok_response_def mock_env_def mock_json_def
      server_error_response_def)

theorem fetch_weather_data_per_parameter_witness:
  "snd (fst (fetch_weather_data (mock_env current_upstream) LATITUDE LONGITUDE start_io) ! 0)
     = PFloat (Finite (145 / 2))
   \<and> snd (fst (fetch_weather_data (mock_env current_upstream) LATITUDE LONGITUDE start_io) ! 1)
     = PStr (''Error fetching weather_symbol: 500 Server Error: Internal Server Error for url: ''
             @ ''https://api.meteomatics.com/2024-09-30T12:00:01Z/weather_symbol_1h:idx/33.4473,-84.1469/json'')
   \<and> snd (fst (fetch_weather_data (mock_env current_upstream) LATITUDE LONGITUDE start_io) ! 2)
     = PStr ''Error fetching heavy_rain_warning: Expecting value: line 1 column 1 (char 0)''
   \<and> snd (fst (fetch_weather_data (mock_env current_upstream) LATITUDE LONGITUDE start_io) ! 3)
     = PStr ''Error fetching air_quality: Connection refused''
   \<and> (\<exists>m. current_outcome (mock_env current_upstream) LATITUDE LONGITUDE start_io 1
            = Inl (Exn HTTPError m))
   \<and> snd (fst (fetch_weather_data (mock_env shapeless_upstream) LATITUDE LONGITUDE start_io) ! 0)
     = PStr ''Error fetching temperature: list index out of range''"
proof -
  let ?env = "mock_env current_upstream"
  let ?wd = "fst (fetch_weather_data ?env LATITUDE LONGITUDE start_io)"
  let ?path = "[Key ''data'', Idx 0, Key ''coordinates'', Idx 0, Key ''dates'', Idx 0,
                Key ''value'']"
  note t = fetch_weather_data_per_parameter [of ?env LATITUDE LONGITUDE start_io]
  have keys: "map fst ?wd = [''temperature'', ''weather_symbol'', ''heavy_rain_warning'', ''air_quality'']"
    using t by blast
  have names: "fst (?wd ! 1) = ''weather_symbol''" "fst (?wd ! 2) = ''heavy_rain_warning''"
    "fst (?wd ! 3) = ''air_quality''"
    using arg_cong [OF keys, of "\<lambda>xs. xs ! 1"] arg_cong [OF keys, of "\<lambda>xs. xs ! 2"]
      arg_cong [OF keys, of "\<lambda>xs. xs ! 3"] arg_cong [OF keys, of length]
    by simp_all
  have l: "(0::nat) < 4" "(1::nat) < 4" "(2::nat) < 4" "(3::nat) < 4" by simp_all
  \<comment> \<open>the value\<close>
  from t l(1) mock_current_outcomes(1) [of LATITUDE LONGITUDE]
  have a: "snd (?wd ! 0) = PFloat (Finite (145 / 2))" by blast
  \<comment> \<open>a status from 400 to 599\<close>
  have "(500::int) \<ge> 400 \<and> (500::int) < 600" by simp
  with t l(2) mock_current_requests(2) [of LATITUDE LONGITUDE] mock_responses(4)
  have s: "\<exists>m. current_outcome ?env LATITUDE LONGITUDE start_io 1 = Inl (Exn HTTPError m)"
    by metis
  from t l(2) mock_current_outcomes(2) [of LATITUDE LONGITUDE]
  have b: "snd (?wd ! 1) = PStr (''Error fetching '' @ fst (?wd ! 1) @ '': '' @ str_exn
             (Exn HTTPError (''500 Server Error: Internal Server Error for url: ''
                @ current_url_of ?env LATITUDE LONGITUDE start_io 1)))"
    by blast
  \<comment> \<open>a body that is no JSON\<close>
  from t l(3) mock_current_requests(3) [of LATITUDE LONGITUDE]
    mock_responses(1) [of _ "''not JSON''"] mock_responses(2) [of current_upstream]
  have "current_outcome ?env LATITUDE LONGITUDE start_io 2
          = Inl (Exn JSONDecodeError ''Expecting value: line 1 column 1 (char 0)'')"
    by blast
  with t l(3)
  have c: "snd (?wd ! 2) = PStr (''Error fetching '' @ fst (?wd ! 2) @ '': '' @ str_exn
             (Exn JSONDecodeError ''Expecting value: line 1 column 1 (char 0)''))"
    by blast
  \<comment> \<open>a request that raises\<close>
  from t l(4) mock_current_requests(4) [of LATITUDE LONGITUDE]
  have "current_outcome ?env LATITUDE LONGITUDE start_io 3
          = Inl (Exn RequestException ''Connection refused'')"
    by blast
  with t l(4)
  have d: "snd (?wd ! 3) = PStr (''Error fetching '' @ fst (?wd ! 3) @ '': '' @ str_exn
             (Exn RequestException ''Connection refused''))"
    by blast
  \<comment> \<open>an envelope without the expected shape\<close>
  let ?env' = "mock_env shapeless_upstream"
  let ?wd' = "fst (fetch_weather_data ?env' LATITUDE LONGITUDE start_io)"
  note t' = fetch_weather_data_per_parameter [of ?env' LATITUDE LONGITUDE start_io]
  have keys': "map fst ?wd' = [''temperature'', ''weather_symbol'', ''heavy_rain_warning'', ''air_quality'']"
    using t' by blast
  have name': "fst (?wd' ! 0) = ''temperature''"
    using arg_cong [OF keys', of "\<lambda>xs. xs ! 0"] arg_cong [OF keys', of length] by simp
  have rq: "current_request ?env' LATITUDE LONGITUDE start_io 0
              = Inr (ok_response (current_url_of ?env' LATITUDE LONGITUDE start_io 0)
                       ''empty-envelope'')"
    by (simp add: current_request_def current_url_of_def mock_env_def shapeless_upstream_def)
  have gp: "getpath (PDict [(''data'', PList [])]) ?path
              = Inl (Exn IndexError ''list index out of range'')"
    by simp
  from t' l(1) rq mock_responses(1) [of _ "''empty-envelope''"]
    mock_responses(3) [of shapeless_upstream] gp
  have "current_outcome ?env' LATITUDE LONGITUDE start_io 0
          = Inl (Exn IndexError ''list index out of range'')"
    by blast
  with t' l(1)
  have e: "snd (?wd' ! 0) = PStr (''Error fetching '' @ fst (?wd' ! 0) @ '': '' @ str_exn
             (Exn IndexError ''list index out of range''))"
    by blast
  from a b [unfolded names mock_current_urls] c [unfolded names] d [unfolded names] s
    e [unfolded name']
  show ?thesis by simp
qed

section \<open>The forecast fetch\<close>


text \<open>
  C2. The forecast fetch fails fast. When the temperature query fails, whatever the symbol
  query would give, the result is the one text "Error fetching temperature: <exception>"
  and the symbol query is not even made; when the temperature query succeeds and the
  symbol query fails, the result is the one text "Error fetching weather_symbol:
  <exception>". The result is a list only when both queries succeed. A query fails when
  the request raises, when the status is from 400 to 599, when the body is no JSON, or
  when the envelope has not the expected shape.
\<close>

theorem fetch_5_day_forecast_fail_fast:
  "(forecast_outcome env latitude longitude s 0 = Inl e \<longrightarrow>
      fst (fetch_5_day_forecast env latitude longitude s)
        = PStr (''Error fetching temperature: '' @ str_exn e)
      \<and> http_calls (snd (fetch_5_day_forecast env latitude longitude s)) = http_calls s + 1)
   \<and> (forecast_outcome env latitude longitude s 0 = Inr t
        \<and> forecast_outcome env latitude longitude s 1 = Inl e \<longrightarrow>
      fst (fetch_5_day_forecast env latitude longitude s)
        = PStr (''Error fetching weather_symbol: '' @ str_exn e))
   \<and> ((\<exists>xs. fst (fetch_5_day_forecast env latitude longitude s) = PList xs) \<longleftrightarrow>
        (\<exists>a b. forecast_outcome env latitude longitude s 0 = Inr a
               \<and> forecast_outcome env latitude longitude s 1 = Inr b))
   \<and> (forecast_request env latitude longitude s k = Inl e \<longrightarrow>
        forecast_outcome env latitude longitude s k = Inl e)
   \<and> (forecast_request env latitude longitude s k = Inr r
        \<and> 400 \<le> status_code r \<and> status_code r < 600 \<longrightarrow>
        (\<exists>m. forecast_outcome env latitude longitude s k = Inl (Exn HTTPError m)))
   \<and> (forecast_request env latitude longitude s k = Inr r
        \<and> raise_for_status r = Inr () \<and> json env r = Inl e \<longrightarrow>
        forecast_outcome env latitude longitude s k = Inl e)
   \<and> (forecast_request env latitude longitude s k = Inr r
        \<and> raise_for_status r = Inr () \<and> json env r = Inr data
        \<and> getpath data [Key ''data'', Idx 0, Key ''coordinates'', Idx 0, Key ''dates''] = Inl e \<longrightarrow>
        forecast_outcome env latitude longitude s k = Inl e)"
proof (intro conjI impI)
  assume "forecast_outcome env latitude longitude s 0 = Inl e"
  then show "fst (fetch_5_day_forecast env latitude longitude s)
        = PStr (''Error fetching temperature: '' @ str_exn e)"
    and "http_calls (snd (fetch_5_day_forecast env latitude longitude s)) = http_calls s + 1"
    by (simp_all add: fetch_5_day_forecast_result fetch_5_day_forecast_calls error_text_def)
next
  assume "forecast_outcome env latitude longitude s 0 = Inr t
        \<and> forecast_outcome env latitude longitude s 1 = Inl e"
  then show "fst (fetch_5_day_forecast env latitude longitude s)
        = PStr (''Error fetching weather_symbol: '' @ str_exn e)"
    by (simp add: fetch_5_day_forecast_result error_text_def)
next
  show "(\<exists>xs. fst (fetch_5_day_forecast env latitude longitude s) = PList xs) \<longleftrightarrow>
        (\<exists>a b. forecast_outcome env latitude longitude s 0 = Inr a
               \<and> forecast_outcome env latitude longitude s 1 = Inr b)"
    by (simp add: fetch_5_day_forecast_result error_text_def split: sum.splits)
next
  assume "forecast_request env latitude longitude s k = Inl e"
  then show "forecast_outcome env latitude longitude s k = Inl e"
    by (simp add: forecast_outcome_def)
next
  assume "forecast_request env latitude longitude s k = Inr r
        \<and> 400 \<le> status_code r \<and> status_code r < 600"
  then show "\<exists>m. forecast_outcome env latitude longitude s k = Inl (Exn HTTPError m)"
    using raise_for_status_error [of r]
    by (auto simp: forecast_outcome_def forecast_dates_def)
next
  assume "forecast_request env latitude longitude s k = Inr r
        \<and> raise_for_status r = Inr () \<and> json env r = Inl e"
  then show "forecast_outcome env latitude longitude s k = Inl e"
    by (simp add: forecast_outcome_def forecast_dates_def)
next
  assume "forecast_request env latitude longitude s k = Inr r
        \<and> raise_for_status r = Inr () \<and> json env r = Inr data
        \<and> getpath data [Key ''data'', Idx 0, Key ''coordinates'', Idx 0, Key ''dates''] = Inl e"
  then show "forecast_outcome env latitude longitude s k = Inl e"
    by (simp add: forecast_outcome_def forecast_dates_def)
qed

lemma mock_forecast_urls:
  "forecast_url_of (mock_env get) LATITUDE LONGITUDE start_io 0
     = ''https://api.meteomatics.com/2024-09-30T12:00:00Z--2024-10-05T12:00:00Z:PT24H''
       @ ''/t_2m:F/33.4473,-84.1469/json''"
  by (simp add: forecast_url_of_def forecast_url_def forecast_params_def mock_env_def
      start_io_def LATITUDE_def LONGITUDE_def timedelta_days_def interval_def)

lemma mock_forecast_dates:
  "forecast_dates (mock_env get) (ok_response u ''temperatures'') = Inr temperature_series"
  "forecast_dates (mock_env get) (ok_response u ''symbols'') = Inr symbol_series"
  "forecast_dates (mock_env get) (server_error_response u)
     = Inl (Exn HTTPError (''500 Server Error: Internal Server Error for url: '' @ u))"
  by (simp_all add: forecast_dates_def raise_for_status_def ok_response_def
      server_error_response_def show_int_500 mock_env_def mock_json_def envelope_def
      temperature_series_def symbol_series_def)

lemma failing_forecast_requests:
  "forecast_request (mock_env failing_forecast_upstream) latitude longitude start_io 0
     = Inr (server_error_response
              (forecast_url_of (mock_env failing_forecast_upstream) latitude longitude start_io 0))"
  "forecast_request (mock_env failing_forecast_upstream) latitude longitude start_io 1
     = Inr (ok_response
              (forecast_url_of (mock_env failing_forecast_upstream) latitude longitude start_io 1)
              ''symbols'')"
  by (simp_all add: forecast_request_def forecast_url_of_def mock_env_def
      failing_forecast_upstream_def start_io_def)

theorem fetch_5_day_forecast_fail_fast_witness:
  "forecast_outcome (mock_env failing_forecast_upstream) LATITUDE LONGITUDE start_io 1
     = Inr symbol_series
   \<and> fst (fetch_5_day_forecast (mock_env failing_forecast_upstream) LATITUDE LONGITUDE start_io)
     = PStr (''Error fetching temperature: 500 Server Error: Internal Server Error for url: ''
             @ ''https://api.meteomatics.com/2024-09-30T12:00:00Z--2024-10-05T12:00:00Z:PT24H''
             @ ''/t_2m:F/33.4473,-84.1469/json'')
   \<and> http_calls (snd (fetch_5_day_forecast (mock_env failing_forecast_upstream)
        LATITUDE LONGITUDE start_io)) = 1
   \<and> (\<exists>m. forecast_outcome (mock_env failing_forecast_upstream) LATITUDE LONGITUDE start_io 0
            = Inl (Exn HTTPError m))
   \<and> fst (fetch_5_day_forecast (mock_env symbol_failing_upstream) LATITUDE LONGITUDE start_io)
     = PStr ''Error fetching weather_symbol: Expecting value: line 1 column 1 (char 0)''
   \<and> fst (fetch_5_day_forecast (mock_env offline_upstream) LATITUDE LONGITUDE start_io)
     = PStr ''Error fetching temperature: Connection refused''
   \<and> fst (fetch_5_day_forecast (mock_env shapeless_upstream) LATITUDE LONGITUDE start_io)
     = PStr ''Error fetching temperature: list index out of range''"
proof -
  let ?env = "mock_env failing_forecast_upstream"
  let ?e = "Exn HTTPError (''500 Server Error: Internal Server Error for url: ''
              @ forecast_url_of ?env LATITUDE LONGITUDE start_io 0)"
  let ?path = "[Key ''data'', Idx 0, Key ''coordinates'', Idx 0, Key ''dates'']"
  \<comment> \<open>the temperature fails, the symbols would arrive\<close>
  have o0: "forecast_outcome ?env LATITUDE LONGITUDE start_io 0 = Inl ?e"
    unfolding forecast_outcome_def failing_forecast_requests
    by (simp add: mock_forecast_dates)
  have o1: "forecast_outcome ?env LATITUDE LONGITUDE start_io 1 = Inr symbol_series"
    unfolding forecast_outcome_def failing_forecast_requests
    by (simp add: mock_forecast_dates)
  from fetch_5_day_forecast_fail_fast [of ?env LATITUDE LONGITUDE start_io ?e] o0
  have a: "fst (fetch_5_day_forecast ?env LATITUDE LONGITUDE start_io)
          = PStr (''Error fetching temperature: '' @ str_exn ?e)
        \<and> http_calls (snd (fetch_5_day_forecast ?env LATITUDE LONGITUDE start_io))
          = http_calls start_io + 1"
    by blast
  \<comment> \<open>a status from 400 to 599\<close>
  have "(500::int) \<ge> 400 \<and> (500::int) < 600" by simp
  with fetch_5_day_forecast_fail_fast
         [of ?env LATITUDE LONGITUDE start_io _ _ 0
             "server_error_response (forecast_url_of ?env LATITUDE LONGITUDE start_io 0)"]
    failing_forecast_requests(1) [of LATITUDE LONGITUDE] mock_responses(4)
  have s: "\<exists>m. forecast_outcome ?env LATITUDE LONGITUDE start_io 0 = Inl (Exn HTTPError m)"
    by metis
  \<comment> \<open>the temperature arrives, the symbols are no JSON\<close>
  let ?env2 = "mock_env symbol_failing_upstream"
  let ?j = "Exn JSONDecodeError ''Expecting value: line 1 column 1 (char 0)''"
  let ?u2 = "forecast_url_of ?env2 LATITUDE LONGITUDE start_io"
  have rq2: "forecast_request ?env2 LATITUDE LONGITUDE start_io 0
               = Inr (ok_response (?u2 0) ''temperatures'')"
    "forecast_request ?env2 LATITUDE LONGITUDE start_io 1 = Inr (ok_response (?u2 1) ''not JSON'')"
    by (simp_all add: forecast_request_def forecast_url_of_def mock_env_def
        symbol_failing_upstream_def start_io_def)
  have p0: "forecast_outcome ?env2 LATITUDE LONGITUDE start_io 0 = Inr temperature_series"
    unfolding forecast_outcome_def rq2 by (simp add: mock_forecast_dates)
  from fetch_5_day_forecast_fail_fast
         [of ?env2 LATITUDE LONGITUDE start_io ?j _ 1 "ok_response (?u2 1) ''not JSON''"]
    rq2(2) mock_responses(1) [of _ "''not JSON''"] mock_responses(2) [of symbol_failing_upstream]
  have p1: "forecast_outcome ?env2 LATITUDE LONGITUDE start_io 1 = Inl ?j"
    by blast
  from fetch_5_day_forecast_fail_fast
         [of ?env2 LATITUDE LONGITUDE start_io ?j temperature_series] p0 p1
  have b: "fst (fetch_5_day_forecast ?env2 LATITUDE LONGITUDE start_io)
             = PStr (''Error fetching weather_symbol: '' @ str_exn ?j)"
    by blast
  \<comment> \<open>a request that raises\<close>
  let ?env3 = "mock_env offline_upstream"
  let ?r = "Exn RequestException ''Connection refused''"
  have rq3: "forecast_request ?env3 LATITUDE LONGITUDE start_io 0 = Inl ?r"
    by (simp add: forecast_request_def mock_env_def offline_upstream_def)
  from fetch_5_day_forecast_fail_fast [of ?env3 LATITUDE LONGITUDE start_io ?r _ 0] rq3
  have c: "fst (fetch_5_day_forecast ?env3 LATITUDE LONGITUDE start_io)
             = PStr (''Error fetching temperature: '' @ str_exn ?r)"
    by blast
  \<comment> \<open>an envelope without the expected shape\<close>
  let ?env4 = "mock_env shapeless_upstream"
  let ?i = "Exn IndexError ''list index out of range''"
  let ?u4 = "forecast_url_of ?env4 LATITUDE LONGITUDE start_io 0"
  have rq4: "forecast_request ?env4 LATITUDE LONGITUDE start_io 0
               = Inr (ok_response ?u4 ''empty-envelope'')"
    by (simp add: forecast_request_def forecast_url_of_def mock_env_def shapeless_upstream_def)
  have gp: "getpath (PDict [(''data'', PList [])]) ?path = Inl ?i"
    by simp
  from fetch_5_day_forecast_fail_fast
         [of ?env4 LATITUDE LONGITUDE start_io ?i _ 0 "ok_response ?u4 ''empty-envelope''"
             "PDict [(''data'', PList [])]"]
    rq4 mock_responses(1) [of _ "''empty-envelope''"] mock_responses(3) [of shapeless_upstream] gp
  have d: "fst (fetch_5_day_forecast ?env4 LATITUDE LONGITUDE start_io)
             = PStr (''Error fetching temperature: '' @ str_exn ?i)"
    by blast
  from a [unfolded mock_forecast_urls] o1 s b c d show ?thesis by (simp add: start_io_def)
qed

text \<open>
  C10. When both requests are answered with a status that does not raise and both
  envelopes have the expected shape, the result is the list of exactly two series:
  at index 0 the \<^verbatim>\<open>dates\<close> of the answer to the temperature query, at index 1 the
  \<^verbatim>\<open>dates\<close> of the answer to the weather_symbol query, each as the provider sent it.
  This is the order in which the display reads them: it loops over index 0.
\<close>

theorem fetch_5_day_forecast_order:
  assumes "forecast_request env latitude longitude s 0 = Inr r0"
    and "raise_for_status r0 = Inr ()"
    and "json env r0 = Inr d0"
    and "getpath d0 [Key ''data'', Idx 0, Key ''coordinates'', Idx 0, Key ''dates''] = Inr t"
    and "forecast_request env latitude longitude s 1 = Inr r1"
    and "raise_for_status r1 = Inr ()"
    and "json env r1 = Inr d1"
    and "getpath d1 [Key ''data'', Idx 0, Key ''coordinates'', Idx 0, Key ''dates''] = Inr w"
  shows "fst (fetch_5_day_forecast env latitude longitude s) = PList [t, w]
    \<and> getitem (fst (fetch_5_day_forecast env latitude longitude s)) (Idx 0) = Inr t
    \<and> getitem (fst (fetch_5_day_forecast env latitude longitude s)) (Idx 1) = Inr w
    \<and> forecast_params latitude longitude ! 0
        = (''temperature'', ''t_2m:F/'' @ latitude @ '','' @ longitude)
    \<and> forecast_params latitude longitude ! 1
        = (''weather_symbol'', ''weather_symbol_1h:idx/'' @ latitude @ '','' @ longitude)
    \<and> display_forecast (fst (fetch_5_day_forecast env latitude longitude s))
        = (case py_iter t of
             Inl e \<Rightarrow> ([], Some e)
           | Inr days \<Rightarrow> display_loop (PList [t, w]) 0 days)"
proof -
  have o0: "forecast_outcome env latitude longitude s 0 = Inr t"
    using assms(1-4) by (simp add: forecast_outcome_def forecast_dates_def)
  have o1: "forecast_outcome env latitude longitude s 1 = Inr w"
    using assms(5-8) by (simp add: forecast_outcome_def forecast_dates_def)
  have r: "fst (fetch_5_day_forecast env latitude longitude s) = PList [t, w]"
    unfolding fetch_5_day_forecast_result o0 o1 by simp
  show ?thesis
    unfolding r by (simp add: forecast_params_def display_forecast_def)
qed

lemma mock_forecast_requests:
  "forecast_request (mock_env forecast_upstream) latitude longitude start_io 0
     = Inr (ok_response
              (forecast_url_of (mock_env forecast_upstream) latitude longitude start_io 0)
              ''temperatures'')"
  "forecast_request (mock_env forecast_upstream) latitude longitude start_io 1
     = Inr (ok_response
              (forecast_url_of (mock_env forecast_upstream) latitude longitude start_io 1)
              ''symbols'')"
  by (simp_all add: forecast_request_def forecast_url_of_def mock_env_def forecast_upstream_def
      start_io_def)

theorem fetch_5_day_forecast_order_witness:
  "fst (fetch_5_day_forecast (mock_env forecast_upstream) LATITUDE LONGITUDE start_io)
     = PList [temperature_series, symbol_series]"
proof -
  let ?env = "mock_env forecast_upstream"
  let ?p = "[Key ''data'', Idx 0, Key ''coordinates'', Idx 0, Key ''dates'']"
  let ?u = "forecast_url_of ?env LATITUDE LONGITUDE start_io"
  have a: "raise_for_status (ok_response (?u 0) ''temperatures'') = Inr ()"
    "raise_for_status (ok_response (?u 1) ''symbols'') = Inr ()"
    by (simp_all add: raise_for_status_def ok_response_def)
  have b: "json ?env (ok_response (?u 0) ''temperatures'')
             = Inr (envelope [sample ''d1'' (PInt 70), sample ''d2'' (PInt 75)])"
    "json ?env (ok_response (?u 1) ''symbols'')
             = Inr (envelope [sample ''d1'' (PStr ''1''), sample ''d2'' (PStr ''5'')])"
    by (simp_all add: mock_env_def mock_json_def ok_response_def)
  have c: "getpath (envelope [sample ''d1'' (PInt 70), sample ''d2'' (PInt 75)]) ?p
             = Inr temperature_series"
    "getpath (envelope [sample ''d1'' (PStr ''1''), sample ''d2'' (PStr ''5'')]) ?p
             = Inr symbol_series"
    by (simp_all add: envelope_def temperature_series_def symbol_series_def)
  from fetch_5_day_forecast_order
         [OF mock_forecast_requests(1) a(1) b(1) c(1) mock_forecast_requests(2) a(2) b(2) c(2)]
  show ?thesis by blast
qed

section \<open>Two calls\<close>

lemma rss_calls:
  "http_calls (snd (fetch_first_description_from_rss env u s)) = Suc (http_calls s)"
  by (simp add: fetch_first_description_from_rss_def rss_try_def http_get_def
      split: sum.splits prod.splits)






























section \<open>The forecast display\<close>

lemma first_index_at:
  "i < length xs \<Longrightarrow> P (k + i) (xs ! i) \<Longrightarrow> \<forall>j<i. \<not> P (k + j) (xs ! j) \<Longrightarrow>
   first_index P k xs = Some (k + i)"
proof (induction xs arbitrary: i k)
  case Nil
  then show ?case by simp
next
  case (Cons x xs)
  show ?case
  proof (cases i)
    case 0
    with Cons.prems show ?thesis by simp
  next
    case (Suc n)
    have nx: "\<not> P k x" using Cons.prems(3) Suc by (metis add.right_neutral nth_Cons_0 zero_less_Suc)
    have "first_index P (Suc k) xs = Some (Suc k + n)"
    proof (rule Cons.IH)
      show "n < length xs" using Cons.prems(1) Suc by simp
      show "P (Suc k + n) (xs ! n)" using Cons.prems(2) Suc by simp
      show "\<forall>j<n. \<not> P (Suc k + j) (xs ! j)"
      proof (intro allI impI)
        fix j assume "j < n"
        then have "Suc j < i" using Suc by simp
        with Cons.prems(3) have "\<not> P (k + Suc j) ((x # xs) ! Suc j)" by blast
        then show "\<not> P (Suc k + j) (xs ! j)" by simp
      qed
    qed
    with nx Suc show ?thesis by simp
  qed
qed

lemma index_method_position:
  assumes "i < length ts" and "\<forall>j<i. \<not> py_eq (ts ! j) (ts ! i)"
  shows "index_method (PList ts) i (ts ! i) = Inr i"
proof -
  have "first_index (\<lambda>j y. j = i \<or> py_eq y (ts ! i)) 0 ts = Some (0 + i)"
    using assms by (intro first_index_at) auto
  then show ?thesis by simp
qed

lemma forecast_day_of_positional:
  assumes "i < length ts" and "length ss = length ts" and "\<forall>j<i. \<not> py_eq (ts ! j) (ts ! i)"
  shows "forecast_day_of (PList [PList ts, PList ss]) i (ts ! i) = positional_day (ts ! i) (ss ! i)"
proof -
  have idx: "index_method (PList ts) i (ts ! i) = Inr i"
    using assms(1,3) by (rule index_method_position)
  have sym: "getitem (PList ss) (Idx (int i)) = Inr (ss ! i)"
    using assms(1,2) by simp
  have g1: "getitem (PList [PList ts, PList ss]) (Idx 1) = Inr (PList ss)"
    and g0: "getitem (PList [PList ts, PList ss]) (Idx 0) = Inr (PList ts)"
    by simp_all
  show ?thesis
    unfolding forecast_day_of_def positional_day_def
    by (simp only: g1 g0 idx sym try_bind_simps)
qed

lemma display_loop_positional:
  assumes "length ss = length ts" and "\<forall>i<length ts. \<forall>j<i. \<not> py_eq (ts ! j) (ts ! i)"
  shows "i \<le> length ts \<Longrightarrow>
    display_loop (PList [PList ts, PList ss]) i (drop i ts)
      = build_forecast_days (drop i ts) (drop i ss)"
proof (induction "length ts - i" arbitrary: i)
  case 0
  then show ?case using assms(1) by simp
next
  case (Suc n)
  then have i: "i < length ts" by simp
  then have i': "i < length ss" using assms(1) by simp
  have IH: "display_loop (PList [PList ts, PList ss]) (Suc i) (drop (Suc i) ts)
      = build_forecast_days (drop (Suc i) ts) (drop (Suc i) ss)"
    using Suc.hyps(1) [of "Suc i"] Suc.hyps(2) i by simp
  have d: "forecast_day_of (PList [PList ts, PList ss]) i (ts ! i)
             = positional_day (ts ! i) (ss ! i)"
    using i assms by (intro forecast_day_of_positional) simp_all
  show ?case
    unfolding Cons_nth_drop_Suc [OF i, symmetric] Cons_nth_drop_Suc [OF i', symmetric]
    by (simp add: d IH split: sum.splits)
qed

text \<open>
  The loop of the source against the positional join: they agree on every pair of
  equally long series in which no temperature sample equals an earlier one, which is so
  whenever the dates are pairwise different.
\<close>

lemma display_forecast_positional:
  assumes "length ss = length ts" and "\<forall>i<length ts. \<forall>j<i. \<not> py_eq (ts ! j) (ts ! i)"
  shows "display_forecast (PList [PList ts, PList ss]) = build_forecast_days ts ss"
  using display_loop_positional [OF assms, of 0] by (simp add: display_forecast_def)

lemma py_eq_dict_date:
  assumes "map_of a ''date'' = Some (PStr x)" and "map_of b ''date'' = Some (PStr y)"
    and "x \<noteq> y"
  shows "\<not> py_eq (PDict a) (PDict b)"
proof
  assume "py_eq (PDict a) (PDict b)"
  moreover have "(''date'', PStr x) \<in> set a" using assms(1) by (rule map_of_SomeD)
  ultimately have "case map_of b ''date'' of None \<Rightarrow> False | Some w \<Rightarrow> py_eq (PStr x) w"
    by auto
  with assms(2,3) show False by simp
qed

lemma int_of_str_digit:
  "int_of_str ''1'' = Some 1" "int_of_str ''5'' = Some 5"
  by (simp_all add: int_of_str_def strip_def is_space_def digit_of_def)

text \<open>The example of the specification: temperatures 70 and 75, symbols "1" and "5".\<close>

lemma spec_example:
  "display_forecast (PList [temperature_series, symbol_series]) =
     ([ForecastDay (PStr ''d1'') (PInt 70) ''Clear sky'' glyph_sun,
       ForecastDay (PStr ''d2'') (PInt 75) ''Rain'' glyph_rain], None)"
proof -
  have a: "\<not> py_eq (sample ''d1'' (PInt 70)) (sample ''d2'' (PInt 75))"
    unfolding sample_def by (rule py_eq_dict_date [of _ "''d1''" _ "''d2''"]) simp_all
  have "display_forecast (PList [PList [sample ''d1'' (PInt 70), sample ''d2'' (PInt 75)],
           PList [sample ''d1'' (PStr ''1''), sample ''d2'' (PStr ''5'')]])
        = build_forecast_days [sample ''d1'' (PInt 70), sample ''d2'' (PInt 75)]
            [sample ''d1'' (PStr ''1''), sample ''d2'' (PStr ''5'')]"
    using a by (intro display_forecast_positional) (simp_all add: less_Suc_eq)
  also have "\<dots> = ([ForecastDay (PStr ''d1'') (PInt 70) ''Clear sky'' glyph_sun,
       ForecastDay (PStr ''d2'') (PInt 75) ''Rain'' glyph_rain], None)"
    by (simp add: positional_day_def sample_def int_of_str_digit
        get_weather_symbol_description_def dict_get_def weather_symbol_map_def)
  finally show ?thesis by (simp add: temperature_series_def symbol_series_def)
qed

text \<open>
  C1. The forecast aggregator is to take, for each position, the value of the symbol
  series at the same position. The source finds the position with
  \<^verbatim>\<open>forecast_data[0].index(day)\<close>, the first position whose sample equals the day's.
  On a temperature series that holds the same sample twice, with a date-aligned symbol
  series of the values "1" and "5", the loop therefore emits "Clear sky" for both days,
  where the positional join emits "Clear sky" and "Rain".
\<close>

theorem display_forecast_duplicate_samples:
  "display_forecast (PList [PList duplicate_temperatures, PList duplicate_symbols]) =
     ([ForecastDay (PStr ''d1'') (PInt 70) ''Clear sky'' glyph_sun,
       ForecastDay (PStr ''d1'') (PInt 70) ''Clear sky'' glyph_sun], None)
   \<and> build_forecast_days duplicate_temperatures duplicate_symbols =
     ([ForecastDay (PStr ''d1'') (PInt 70) ''Clear sky'' glyph_sun,
       ForecastDay (PStr ''d1'') (PInt 70) ''Rain'' glyph_rain], None)"
  by (simp add: display_forecast_def forecast_day_of_def positional_day_def
      duplicate_temperatures_def duplicate_symbols_def sample_def int_of_str_digit float_eq_def
      get_weather_symbol_description_def dict_get_def weather_symbol_map_def)

section \<open>The conversion of condition codes\<close>

lemma py_int_error_classes:
  "py_int v = Inl e \<Longrightarrow>
     exn_class e = TypeError \<or> exn_class e = ValueError \<or> exn_class e = OverflowError"
  by (induction v rule: py_int.induct) (auto split: option.splits)

lemma main_weather_symbol_id_fallback:
  assumes "py_int (dict_get weather_data ''weather_symbol'' (PInt 0)) = Inl e"
    and "exn_class e = TypeError \<or> exn_class e = ValueError"
  shows "main_weather_symbol_id weather_data = Inr 0"
  using assms by (cases e) (auto simp: main_weather_symbol_id_def)

lemma main_weather_symbol_id_overflow:
  "main_weather_symbol_id [(''weather_symbol'', PFloat PosInf)]
     = Inl (Exn OverflowError ''cannot convert float infinity to integer'')"
  by (simp add: main_weather_symbol_id_def dict_get_def)

text \<open>
  C7. A condition code that cannot be converted is to give code 0 wherever codes are
  converted. The conversion in \<^verbatim>\<open>main\<close> does so for a \<^verbatim>\<open>TypeError\<close> and a
  \<^verbatim>\<open>ValueError\<close>: a \<^verbatim>\<open>null\<close> value gives code 0 there. The conversion in the
  forecast loop, line 137, has no handler: on a symbol series whose value is \<^verbatim>\<open>null\<close>
  the \<^verbatim>\<open>TypeError\<close> leaves the function and nothing is displayed.
\<close>

theorem forecast_conversion_has_no_fallback:
  "main_weather_symbol_id [(''weather_symbol'', PNone)] = Inr 0
   \<and> display_forecast null_symbol_forecast =
       ([], Some (Exn TypeError
          (''int() argument must be a string, a bytes-like object or a real number, not ''
           @ quoted ''NoneType'')))"
  by (simp add: main_weather_symbol_id_def dict_get_def display_forecast_def
      forecast_day_of_def null_symbol_forecast_def sample_def type_name_def float_eq_def)

end
